theory Spec2Isabelle
  imports Main
begin

section \<open>Python values and the exceptions the code can raise\<close>

text \<open>
  A parsed JSON document is a Python value: \<open>None\<close>, a bool, an int, a str, a dict with
  str keys or a list. A dict is an association list read with \<open>map_of\<close>. Python strings
  are modelled as lists of 8-bit characters, that is code points 0 to 255; JSON numbers
  with a fraction are left out (on every path below they behave like a non-zero or zero
  \<open>JInt\<close>: truthy unless zero, no attribute \<open>get\<close>, not a container).
\<close>

datatype json =
    JNull
  | JBool bool
  | JInt int
  | JStr string
  | JObj "(string \<times> json) list"
  | JArr "json list"

text \<open>
  The exception classes that occur, each with the text \<open>str(e)\<close> gives. The wording of
  the interpreter's own messages follows CPython 3.11; no theorem depends on it.
\<close>

datatype exn =
    AttributeError string
  | TypeError string
  | KeyError string
  | ValueError string
  | RequestException string

fun exn_str :: "exn \<Rightarrow> string" where
  "exn_str (AttributeError m) = m"
| "exn_str (TypeError m) = m"
| "exn_str (KeyError m) = m"
| "exn_str (ValueError m) = m"
| "exn_str (RequestException m) = m"

fun is_RequestException :: "exn \<Rightarrow> bool" where
  "is_RequestException (RequestException m) = True"
| "is_RequestException e = False"

fun is_ValueError :: "exn \<Rightarrow> bool" where
  "is_ValueError (ValueError m) = True"
| "is_ValueError e = False"

text \<open>Sequencing of computations that may raise: the first exception ends the block.\<close>

definition and_then :: "exn + 'a \<Rightarrow> ('a \<Rightarrow> exn + 'b) \<Rightarrow> exn + 'b" where
  "and_then m f = (case m of Inl e \<Rightarrow> Inl e | Inr v \<Rightarrow> f v)"

fun type_name :: "json \<Rightarrow> string" where
  "type_name JNull = ''NoneType''"
| "type_name (JBool b) = ''bool''"
| "type_name (JInt i) = ''int''"
| "type_name (JStr s) = ''str''"
| "type_name (JObj kv) = ''dict''"
| "type_name (JArr xs) = ''list''"

text \<open>Truth value of a Python object, as \<open>if x\<close> and \<open>not x\<close> test it.\<close>

fun truthy :: "json \<Rightarrow> bool" where
  "truthy JNull = False"
| "truthy (JBool b) = b"
| "truthy (JInt i) = (i \<noteq> 0)"
| "truthy (JStr s) = (s \<noteq> [])"
| "truthy (JObj kv) = (kv \<noteq> [])"
| "truthy (JArr xs) = (xs \<noteq> [])"

definition quoted :: "string \<Rightarrow> string" where
  "quoted s = [CHR 0x27] @ s @ [CHR 0x27]"

definition no_attribute :: "json \<Rightarrow> string \<Rightarrow> exn" where
  "no_attribute v a =
     AttributeError (quoted (type_name v) @ '' object has no attribute '' @ quoted a)"

text \<open>\<open>x.get(k, d)\<close>: only a dict has the method.\<close>

fun py_get :: "json \<Rightarrow> string \<Rightarrow> json \<Rightarrow> exn + json" where
  "py_get (JObj kv) k d = Inr (case map_of kv k of Some v \<Rightarrow> v | None \<Rightarrow> d)"
| "py_get v k d = Inl (no_attribute v ''get'')"

text \<open>\<open>a or b\<close> on values.\<close>

definition py_or :: "json \<Rightarrow> json \<Rightarrow> json" where
  "py_or a b = (if truthy a then a else b)"

text \<open>Substring test, for \<open>k in s\<close> on a str.\<close>

fun is_substring :: "string \<Rightarrow> string \<Rightarrow> bool" where
  "is_substring k [] = (k = [])"
| "is_substring k (c # cs) = (take (length k) (c # cs) = k \<or> is_substring k cs)"

text \<open>\<open>k in x\<close> for a str \<open>k\<close>: keys of a dict, substrings of a str, elements of a list.\<close>

fun py_in :: "string \<Rightarrow> json \<Rightarrow> exn + bool" where
  "py_in k (JObj kv) = Inr (map_of kv k \<noteq> None)"
| "py_in k (JStr s) = Inr (is_substring k s)"
| "py_in k (JArr xs) = Inr (List.member xs (JStr k))"
| "py_in k v = Inl (TypeError (''argument of type '' @ quoted (type_name v) @ '' is not iterable''))"

text \<open>\<open>x[k]\<close> for a str \<open>k\<close>.\<close>

fun py_item :: "json \<Rightarrow> string \<Rightarrow> exn + json" where
  "py_item (JObj kv) k =
     (case map_of kv k of Some v \<Rightarrow> Inr v | None \<Rightarrow> Inl (KeyError (quoted k)))"
| "py_item (JStr s) k = Inl (TypeError (''string indices must be integers, not '' @ quoted ''str''))"
| "py_item (JArr xs) k = Inl (TypeError ''list indices must be integers or slices, not str'')"
| "py_item v k = Inl (TypeError (quoted (type_name v) @ '' object is not subscriptable''))"

section \<open>String methods\<close>

text \<open>\<open>s.split(sep)\<close> for a separator of one character (every call of the code).\<close>

fun split_on :: "char \<Rightarrow> string \<Rightarrow> string list" where
  "split_on c [] = [[]]"
| "split_on c (x # xs) =
     (if x = c then [] # split_on c xs
      else (case split_on c xs of [] \<Rightarrow> [[x]] | w # ws \<Rightarrow> (x # w) # ws))"

text \<open>The characters \<open>str.isspace\<close> accepts among the code points below 256.\<close>

definition py_isspace :: "char \<Rightarrow> bool" where
  "py_isspace c = (let n = (of_char c :: nat) in
     (9 \<le> n \<and> n \<le> 13) \<or> (28 \<le> n \<and> n \<le> 32) \<or> n = 133 \<or> n = 160)"

definition strip :: "string \<Rightarrow> string" where
  "strip s = rev (dropWhile py_isspace (rev (dropWhile py_isspace s)))"

definition lower_char :: "char \<Rightarrow> char" where
  "lower_char c = (let n = (of_char c :: nat) in
     if (65 \<le> n \<and> n \<le> 90) \<or> (192 \<le> n \<and> n \<le> 222 \<and> n \<noteq> 215) then char_of (n + 32) else c)"

definition lower :: "string \<Rightarrow> string" where
  "lower s = map lower_char s"

text \<open>The methods as the interpreter dispatches them on an arbitrary value.\<close>

fun py_split :: "json \<Rightarrow> char \<Rightarrow> exn + string list" where
  "py_split (JStr s) c = Inr (split_on c s)"
| "py_split v c = Inl (no_attribute v ''split'')"

fun py_strip :: "json \<Rightarrow> exn + string" where
  "py_strip (JStr s) = Inr (strip s)"
| "py_strip v = Inl (no_attribute v ''strip'')"

section \<open>\<open>ApprovalValidator._extract_username\<close>\<close>

text \<open>
  The three strip steps in the order of the source. After a split the value is a
  str; when no step applies the argument reaches \<open>strip\<close> as it came.
\<close>

definition strip_step :: "char \<Rightarrow> bool \<Rightarrow> json \<Rightarrow> exn + json" where
  "strip_step c take_last u =
     and_then (py_in [c] u) (\<lambda>found.
       if found
       then and_then (py_split u c) (\<lambda>parts. Inr (JStr (if take_last then last parts else hd parts)))
       else Inr u)"

definition extract_username :: "json \<Rightarrow> exn + string" where
  "extract_username user_string =
     (if \<not> truthy user_string then Inr []
      else
        and_then (strip_step CHR ''@'' False user_string) (\<lambda>u1.
        and_then (strip_step (CHR 0x5C) True u1) (\<lambda>u2.
        and_then (strip_step CHR ''/'' True u2) (\<lambda>u3.
        py_strip u3))))"

text \<open>
  The normalisation as the specification words it: keep the part before the first
  \<open>@\<close>, then the part after the last backslash, then the part after the last slash,
  each only when the delimiter occurs, then trim.
\<close>

definition before_first :: "char \<Rightarrow> string \<Rightarrow> string" where
  "before_first c s = takeWhile (\<lambda>x. x \<noteq> c) s"

definition after_last :: "char \<Rightarrow> string \<Rightarrow> string" where
  "after_last c s = rev (takeWhile (\<lambda>x. x \<noteq> c) (rev s))"

text \<open>Trimming, said without reference to the code: drop the leading whitespace, then
  keep all but the trailing whitespace of what is left.\<close>

definition trim :: "string \<Rightarrow> string" where
  "trim s =
     (let t = dropWhile py_isspace s
      in take (length t - length (takeWhile py_isspace (rev t))) t)"

definition extractUsername :: "string \<Rightarrow> string" where
  "extractUsername raw =
     (let a = (if CHR ''@'' \<in> set raw then before_first CHR ''@'' raw else raw);
          b = (if CHR 0x5C \<in> set a then after_last (CHR 0x5C) a else a);
          c = (if CHR ''/'' \<in> set b then after_last CHR ''/'' b else b)
      in trim c)"

section \<open>\<open>GitHubClient\<close>: the Gateway\<close>

text \<open>
  The HTTP library is outside the repository and is a parameter. A request is named by
  what the code puts into it: the three values formatted into the URL of a GET, or the
  callback URL and the JSON payload of a POST. The transport receives the bearer token
  of the client and answers with a response, or raises. What it raises is for the
  transport to say: a \<open>RequestException\<close> for a failed connection or an invalid URL, but
  also exceptions of other classes, such as the \<open>LocationParseError\<close> of urllib3 (a
  \<open>ValueError\<close>) that \<open>requests.post\<close> lets through for a host with an empty label.
\<close>

datatype request =
    GetRun json json json
  | GetJobs json json json
  | PostCallback json json

text \<open>
  A response: the status code, the text of the error \<open>raise_for_status\<close> raises for it,
  the body text, and what \<open>response.json()\<close> gives: the parsed body, or the exception
  it raises (a \<open>RequestException\<close> from requests 2.27 on, a \<open>ValueError\<close> before).
\<close>

record response =
  resp_status :: nat
  resp_reason :: string
  resp_text :: string
  resp_json :: "exn + json"

type_synonym transport = "string \<Rightarrow> request \<Rightarrow> exn + response"

text \<open>\<open>requests.get(url, headers=self.headers)\<close> and \<open>requests.post(...)\<close>: the call of the
  library with the client's token in the headers; its exceptions reach the caller as
  they are.\<close>

definition send :: "transport \<Rightarrow> string \<Rightarrow> request \<Rightarrow> exn + response" where
  "send tr token rq = tr token rq"

definition raise_for_status :: "response \<Rightarrow> exn + unit" where
  "raise_for_status r =
     (if 400 \<le> resp_status r \<and> resp_status r < 600
      then Inl (RequestException (resp_reason r)) else Inr ())"

definition json_of :: "response \<Rightarrow> exn + json" where
  "json_of r = resp_json r"

text \<open>\<open>try: body except requests.exceptions.RequestException as e: handler\<close>.\<close>

definition except_RequestException :: "exn + 'a \<Rightarrow> (exn \<Rightarrow> 'a) \<Rightarrow> exn + 'a" where
  "except_RequestException body handler =
     (case body of
        Inl e \<Rightarrow> (if is_RequestException e then Inr (handler e) else Inl e)
      | Inr v \<Rightarrow> Inr v)"

definition get_workflow_run :: "transport \<Rightarrow> string \<Rightarrow> json \<Rightarrow> json \<Rightarrow> json \<Rightarrow> exn + json" where
  "get_workflow_run tr token repo_owner repo_name run_id =
     except_RequestException
       (and_then (send tr token (GetRun repo_owner repo_name run_id)) (\<lambda>r.
        and_then (raise_for_status r) (\<lambda>_.
        json_of r)))
       (\<lambda>e. JNull)"

definition callback_payload :: "string \<Rightarrow> string \<Rightarrow> json" where
  "callback_payload state comment =
     JObj [(''state'', JStr state), (''comment'', JStr comment), (''environment_name'', JStr [])]"

definition approve_deployment :: "transport \<Rightarrow> string \<Rightarrow> json \<Rightarrow> string \<Rightarrow> exn + json" where
  "approve_deployment tr token callback_url comment =
     except_RequestException
       (and_then (send tr token (PostCallback callback_url (callback_payload ''approved'' comment))) (\<lambda>r.
        and_then (raise_for_status r) (\<lambda>_.
        if resp_text r \<noteq> [] then json_of r else Inr (JObj [(''status'', JStr ''approved'')]))))
       (\<lambda>e. JObj [(''error'', JStr (''Error approving deployment: '' @ exn_str e))])"

definition reject_deployment :: "transport \<Rightarrow> string \<Rightarrow> json \<Rightarrow> string \<Rightarrow> exn + json" where
  "reject_deployment tr token callback_url comment =
     except_RequestException
       (and_then (send tr token (PostCallback callback_url (callback_payload ''rejected'' comment))) (\<lambda>r.
        and_then (raise_for_status r) (\<lambda>_.
        if resp_text r \<noteq> [] then json_of r else Inr (JObj [(''status'', JStr ''rejected'')]))))
       (\<lambda>e. JObj [(''error'', JStr (''Error rejecting deployment: '' @ exn_str e))])"

definition add_workflow_summary_error ::
  "transport \<Rightarrow> string \<Rightarrow> json \<Rightarrow> json \<Rightarrow> json \<Rightarrow> string \<Rightarrow> exn + bool" where
  "add_workflow_summary_error tr token repo_owner repo_name run_id error_message =
     except_RequestException
       (and_then (send tr token (GetJobs repo_owner repo_name run_id)) (\<lambda>r.
        and_then (raise_for_status r) (\<lambda>_.
        and_then (json_of r) (\<lambda>j.
        and_then (py_get j ''jobs'' (JArr [])) (\<lambda>jobs.
        if \<not> truthy jobs then Inr False else Inr True)))))
       (\<lambda>e. False)"

text \<open>The calls of Gateway operations, in the order they are made.\<close>

datatype call =
    GetWorkflowRun json json json
  | ApproveDeployment json string
  | RejectDeployment json string
  | AddWorkflowSummaryError json json json string

section \<open>\<open>ApprovalValidator.validate_deployment_user\<close>\<close>

text \<open>Method 1: the actor of the deployment's own payload.\<close>

definition method1 :: "json \<Rightarrow> exn + json" where
  "method1 deployment =
     and_then (py_in ''payload'' deployment) (\<lambda>has_payload.
       if has_payload
       then and_then (py_item deployment ''payload'') (\<lambda>p.
            and_then (py_in ''actor'' p) (\<lambda>has_actor.
              if has_actor then py_item p ''actor'' else Inr JNull))
       else Inr JNull)"

text \<open>Method 2: the workflow's triggering actor, a dict with login or name, or the value itself.\<close>

definition method2 :: "json \<Rightarrow> json \<Rightarrow> exn + json" where
  "method2 workflow initiated_by =
     (if truthy initiated_by then Inr initiated_by
      else and_then (py_in ''triggering_actor'' workflow) (\<lambda>has.
        if has
        then and_then (py_item workflow ''triggering_actor'') (\<lambda>triggered_actor.
          case triggered_actor of
            JObj kv \<Rightarrow>
              and_then (py_get triggered_actor ''login'' JNull) (\<lambda>login.
              and_then (py_get triggered_actor ''name'' JNull) (\<lambda>name.
              Inr (py_or login name)))
          | _ \<Rightarrow> Inr triggered_actor)
        else Inr initiated_by))"

text \<open>Method 3: the sender of the webhook event.\<close>

definition method3 :: "json \<Rightarrow> json \<Rightarrow> exn + json" where
  "method3 sender initiated_by =
     (if \<not> truthy initiated_by \<and> truthy sender then py_get sender ''login'' JNull
      else Inr initiated_by)"

text \<open>
  Method 4: the workflow run read through the Gateway. The second component lists the
  Gateway call when it is made.
\<close>

definition from_workflow_run :: "json \<Rightarrow> json \<Rightarrow> exn + json" where
  "from_workflow_run workflow_run initiated_by =
     (if truthy workflow_run
      then and_then (py_in ''triggering_actor'' workflow_run) (\<lambda>has_ta.
        if has_ta
        then and_then (py_item workflow_run ''triggering_actor'') (\<lambda>ta. py_get ta ''login'' JNull)
        else and_then (py_in ''actor'' workflow_run) (\<lambda>has_actor.
          if has_actor
          then and_then (py_item workflow_run ''actor'') (\<lambda>a. py_get a ''login'' JNull)
          else Inr initiated_by))
      else Inr initiated_by)"

definition repo_owner_and_name :: "json \<Rightarrow> exn + json \<times> json" where
  "repo_owner_and_name webhook_payload =
     and_then (py_get webhook_payload ''repository'' (JObj [])) (\<lambda>repository.
     and_then (py_get repository ''owner'' (JObj [])) (\<lambda>owner.
     and_then (py_get owner ''login'' JNull) (\<lambda>repo_owner.
     and_then (py_get repository ''name'' JNull) (\<lambda>repo_name.
     Inr (repo_owner, repo_name)))))"

definition method4 ::
  "transport \<Rightarrow> string \<Rightarrow> json \<Rightarrow> json \<Rightarrow> json \<Rightarrow> (exn + json) \<times> call list" where
  "method4 tr token webhook_payload run_id initiated_by =
     (if \<not> truthy initiated_by \<and> truthy run_id
      then (case repo_owner_and_name webhook_payload of
              Inl e \<Rightarrow> (Inl e, [])
            | Inr (repo_owner, repo_name) \<Rightarrow>
                if truthy repo_owner \<and> truthy repo_name
                then (and_then (get_workflow_run tr token repo_owner repo_name run_id)
                        (\<lambda>workflow_run. from_workflow_run workflow_run initiated_by),
                      [GetWorkflowRun repo_owner repo_name run_id])
                else (Inr initiated_by, []))
      else (Inr initiated_by, []))"

text \<open>
  The resolution (lines 40 to 85 of the source): the workflow id and the initiator the
  four methods leave, or the exception that ended the block.
\<close>

definition local_methods :: "json \<Rightarrow> exn + json \<times> json" where
  "local_methods webhook_payload =
     and_then (py_get webhook_payload ''deployment'' (JObj [])) (\<lambda>deployment.
     and_then (py_get webhook_payload ''workflow'' (JObj [])) (\<lambda>workflow.
     and_then (py_get webhook_payload ''sender'' (JObj [])) (\<lambda>sender.
     and_then (py_get workflow ''id'' JNull) (\<lambda>run_id.
     and_then (method1 deployment) (\<lambda>i1.
     and_then (method2 workflow i1) (\<lambda>i2.
     and_then (method3 sender i2) (\<lambda>i3.
     Inr (run_id, i3))))))))"

definition resolve_initiator ::
  "transport \<Rightarrow> string \<Rightarrow> json \<Rightarrow> (exn + json \<times> json) \<times> call list" where
  "resolve_initiator tr token webhook_payload =
     (case local_methods webhook_payload of
        Inl e \<Rightarrow> (Inl e, [])
      | Inr (run_id, i3) \<Rightarrow>
          (case method4 tr token webhook_payload run_id i3 of
             (Inl e, calls) \<Rightarrow> (Inl e, calls)
           | (Inr i4, calls) \<Rightarrow> (Inr (run_id, i4), calls)))"

definition unknown_initiator :: json where
  "unknown_initiator =
     JObj [(''is_valid'', JBool False), (''initiated_by'', JStr ''Unknown''),
           (''error'', JStr ''Could not determine deployment initiator'')]"

definition error_result :: "exn \<Rightarrow> json" where
  "error_result e =
     JObj [(''is_valid'', JBool False), (''initiated_by'', JStr ''Unknown''),
           (''error'', JStr (exn_str e))]"

text \<open>The comparison (lines 87 to 112 of the source).\<close>

definition check_initiator :: "string \<Rightarrow> json \<Rightarrow> json \<Rightarrow> exn + json" where
  "check_initiator authorized_user run_id initiated_by =
     (if \<not> truthy initiated_by then Inr unknown_initiator
      else
        and_then (extract_username initiated_by) (\<lambda>username_clean.
        and_then (extract_username (JStr authorized_user)) (\<lambda>authorized_clean.
        Inr (JObj ([(''is_valid'', JBool (lower username_clean = lower authorized_clean)),
                    (''initiated_by'', initiated_by),
                    (''username_checked'', JStr username_clean)]
                   @ (if truthy run_id then [(''run_id'', run_id)] else []))))))"

text \<open>The whole method: the \<open>except Exception\<close> clause turns every exception into a result.\<close>

definition validate_deployment_user ::
  "transport \<Rightarrow> string \<Rightarrow> string \<Rightarrow> json \<Rightarrow> json \<times> call list" where
  "validate_deployment_user tr token authorized_user webhook_payload =
     (case resolve_initiator tr token webhook_payload of
        (Inl e, calls) \<Rightarrow> (error_result e, calls)
      | (Inr (run_id, initiated_by), calls) \<Rightarrow>
          (case check_initiator authorized_user run_id initiated_by of
             Inl e \<Rightarrow> (error_result e, calls)
           | Inr result \<Rightarrow> (result, calls)))"

section \<open>\<open>verify_signature\<close>\<close>

text \<open>
  \<open>hmac.compare_digest\<close> on two str arguments compares them when both are ASCII and
  raises \<open>TypeError\<close> otherwise.
\<close>

definition is_ascii :: "char \<Rightarrow> bool" where
  "is_ascii c = ((of_char c :: nat) < 128)"

definition compare_digest :: "string \<Rightarrow> string \<Rightarrow> exn + bool" where
  "compare_digest a b =
     (if list_all is_ascii a \<and> list_all is_ascii b then Inr (a = b)
      else Inl (TypeError ''comparing strings with non-ASCII characters is not supported''))"

text \<open>
  The digest is a parameter: \<open>hmac_hex secret body\<close> stands for
  \<open>hmac.new(secret.encode('utf-8'), msg=body, digestmod=hashlib.sha256).hexdigest()\<close>.
  An absent header is \<open>None\<close>. A secret that cannot be encoded (one with a lone
  surrogate) is not among the strings modelled here.
\<close>

definition verify_signature ::
  "(string \<Rightarrow> string \<Rightarrow> string) \<Rightarrow> string \<Rightarrow> string option \<Rightarrow> string \<Rightarrow> exn + bool" where
  "verify_signature hmac_hex payload_body signature_header secret =
     (case signature_header of
        None \<Rightarrow> Inr False
      | Some h \<Rightarrow>
          if h = [] then Inr False
          else compare_digest (''sha256='' @ hmac_hex secret payload_body) h)"

section \<open>\<open>approval_webhook\<close>: the request handler\<close>

text \<open>
  A request: what \<open>get_json()\<close> gives (the parsed body, or the text of the \<open>ValueError\<close>
  it raises), the raw body, and the headers. The environment variables are a second map.
\<close>

record http_request =
  get_json :: "string + json"
  get_body :: string
  req_headers :: "string \<Rightarrow> string option"

record http_response =
  status_code :: nat
  body :: json

text \<open>
  \<open>str(v)\<close> as an f-string inserts it. The text of an int, a dict or a list comes from
  the parameter \<open>repr\<close>.
\<close>

definition py_str :: "(json \<Rightarrow> string) \<Rightarrow> json \<Rightarrow> string" where
  "py_str repr v =
     (case v of
        JStr s \<Rightarrow> s
      | JNull \<Rightarrow> ''None''
      | JBool b \<Rightarrow> (if b then ''True'' else ''False'')
      | _ \<Rightarrow> repr v)"

definition rejection_message :: "(json \<Rightarrow> string) \<Rightarrow> json \<Rightarrow> string" where
  "rejection_message repr environment_name =
     ''El usuario utilizado para el despliegue no se encuentra autorizado para desplegar en ''
       @ py_str repr environment_name"

definition approval_message :: "(json \<Rightarrow> string) \<Rightarrow> json \<Rightarrow> json \<Rightarrow> string" where
  "approval_message repr initiated_by environment_name =
     ''Usuario autorizado: '' @ py_str repr initiated_by @ ''. Despliegue permitido en ''
       @ py_str repr environment_name"

definition error_response :: "nat \<Rightarrow> string \<Rightarrow> http_response" where
  "error_response code msg = \<lparr>status_code = code, body = JObj [(''error'', JStr msg)]\<rparr>"

definition skip_response :: http_response where
  "skip_response =
     \<lparr>status_code = 200,
      body = JObj [(''message'', JStr ''Not a deployment protection rule request, skipping'')]\<rparr>"

definition rejected_response :: "string \<Rightarrow> json \<Rightarrow> string \<Rightarrow> json \<Rightarrow> http_response" where
  "rejected_response error_message initiated_by authorized_user rejection_result =
     \<lparr>status_code = 200,
      body = JObj [(''status'', JStr ''rejected''), (''reason'', JStr error_message),
                   (''initiated_by'', initiated_by), (''authorized_user'', JStr authorized_user),
                   (''rejection_result'', rejection_result)]\<rparr>"

definition approved_response :: "string \<Rightarrow> json \<Rightarrow> json \<Rightarrow> json \<Rightarrow> http_response" where
  "approved_response success_message initiated_by environment_name approval_result =
     \<lparr>status_code = 200,
      body = JObj [(''status'', JStr ''approved''), (''message'', JStr success_message),
                   (''initiated_by'', initiated_by), (''environment'', environment_name),
                   (''approval_result'', approval_result)]\<rparr>"

text \<open>Lines 33 to 42: the signature is checked only when a secret is configured.\<close>

definition signature_ok ::
  "(string \<Rightarrow> string \<Rightarrow> string) \<Rightarrow> (string \<Rightarrow> string option) \<Rightarrow> http_request \<Rightarrow> exn + bool" where
  "signature_ok hmac_hex env req =
     (case env ''GITHUB_WEBHOOK_SECRET'' of
        None \<Rightarrow> Inr True
      | Some webhook_secret \<Rightarrow>
          if webhook_secret = [] then Inr True
          else verify_signature hmac_hex (get_body req)
                 (req_headers req ''X-Hub-Signature-256'') webhook_secret)"

definition authorized_user_of :: "(string \<Rightarrow> string option) \<Rightarrow> string" where
  "authorized_user_of env =
     (case env ''AUTHORIZED_USER'' of None \<Rightarrow> ''APZW3PRD_BCP'' | Some u \<Rightarrow> u)"

text \<open>Lines 58 to 62.\<close>

definition webhook_fields :: "json \<Rightarrow> exn + json \<times> json \<times> json \<times> json \<times> json" where
  "webhook_fields req_body =
     and_then (py_get req_body ''action'' JNull) (\<lambda>action.
     and_then (py_get req_body ''deployment_callback_url'' JNull) (\<lambda>deployment_callback_url.
     and_then (py_get req_body ''deployment'' (JObj [])) (\<lambda>deployment.
     and_then (py_get req_body ''repository'' (JObj [])) (\<lambda>repository.
     and_then (py_get req_body ''workflow'' (JObj [])) (\<lambda>workflow.
     Inr (action, deployment_callback_url, deployment, repository, workflow))))))"

text \<open>Lines 75 to 79.\<close>

definition deployment_fields :: "json \<Rightarrow> json \<Rightarrow> json \<Rightarrow> exn + json \<times> json \<times> json \<times> json" where
  "deployment_fields deployment repository workflow =
     and_then (py_get repository ''full_name'' JNull) (\<lambda>repo_full_name.
     and_then (py_get repository ''owner'' (JObj [])) (\<lambda>owner.
     and_then (py_get owner ''login'' JNull) (\<lambda>repo_owner.
     and_then (py_get repository ''name'' JNull) (\<lambda>repo_name.
     and_then (py_get deployment ''environment'' JNull) (\<lambda>environment_name.
     and_then (py_get workflow ''id'' JNull) (\<lambda>run_id.
     Inr (repo_owner, repo_name, environment_name, run_id)))))))"

text \<open>Lines 93 to 126: the deployment is rejected.\<close>

definition reject ::
  "(json \<Rightarrow> string) \<Rightarrow> transport \<Rightarrow> string \<Rightarrow> string \<Rightarrow> json \<Rightarrow> json \<Rightarrow> json \<Rightarrow> json \<Rightarrow> json
     \<Rightarrow> json \<Rightarrow> (exn + http_response) \<times> call list" where
  "reject repr tr token authorized_user validation_result deployment_callback_url
          repo_owner repo_name environment_name run_id =
     (case py_get validation_result ''initiated_by'' (JStr ''Unknown'') of
        Inl e \<Rightarrow> (Inl e, [])
      | Inr initiated_by \<Rightarrow>
          let error_message = rejection_message repr environment_name;
              calls = [RejectDeployment deployment_callback_url error_message]
          in (case reject_deployment tr token deployment_callback_url error_message of
                Inl e \<Rightarrow> (Inl e, calls)
              | Inr rejection_result \<Rightarrow>
                  if truthy run_id
                  then (case add_workflow_summary_error tr token repo_owner repo_name run_id
                               error_message of
                          Inl e \<Rightarrow> Inl e
                        | Inr _ \<Rightarrow> Inr (rejected_response error_message initiated_by
                                          authorized_user rejection_result),
                        calls @ [AddWorkflowSummaryError repo_owner repo_name run_id error_message])
                  else (Inr (rejected_response error_message initiated_by authorized_user
                               rejection_result), calls)))"

text \<open>Lines 128 to 150: the deployment is approved.\<close>

definition approve ::
  "(json \<Rightarrow> string) \<Rightarrow> transport \<Rightarrow> string \<Rightarrow> json \<Rightarrow> json \<Rightarrow> json
     \<Rightarrow> (exn + http_response) \<times> call list" where
  "approve repr tr token validation_result deployment_callback_url environment_name =
     (case py_get validation_result ''initiated_by'' (JStr ''Unknown'') of
        Inl e \<Rightarrow> (Inl e, [])
      | Inr initiated_by \<Rightarrow>
          let success_message = approval_message repr initiated_by environment_name
          in (case approve_deployment tr token deployment_callback_url success_message of
                Inl e \<Rightarrow> Inl e
              | Inr approval_result \<Rightarrow>
                  Inr (approved_response success_message initiated_by environment_name
                         approval_result),
              [ApproveDeployment deployment_callback_url success_message]))"

text \<open>Lines 74 to 150: everything after the event filter.\<close>

definition decide ::
  "(json \<Rightarrow> string) \<Rightarrow> transport \<Rightarrow> string \<Rightarrow> string \<Rightarrow> json \<Rightarrow> json \<Rightarrow> json \<Rightarrow> json \<Rightarrow> json
     \<Rightarrow> (exn + http_response) \<times> call list" where
  "decide repr tr token authorized_user req_body deployment_callback_url deployment repository
          workflow =
     (case deployment_fields deployment repository workflow of
        Inl e \<Rightarrow> (Inl e, [])
      | Inr (repo_owner, repo_name, environment_name, run_id) \<Rightarrow>
          (case validate_deployment_user tr token authorized_user req_body of
             (validation_result, calls) \<Rightarrow>
               (case py_item validation_result ''is_valid'' of
                  Inl e \<Rightarrow> (Inl e, calls)
                | Inr is_valid \<Rightarrow>
                    (case (if \<not> truthy is_valid
                           then reject repr tr token authorized_user validation_result
                                  deployment_callback_url repo_owner repo_name environment_name run_id
                           else approve repr tr token validation_result deployment_callback_url
                                  environment_name) of
                       (outcome, calls') \<Rightarrow> (outcome, calls @ calls')))))"

text \<open>The body of the \<open>try\<close> block.\<close>

definition approval_webhook_try ::
  "(string \<Rightarrow> string \<Rightarrow> string) \<Rightarrow> (json \<Rightarrow> string) \<Rightarrow> transport \<Rightarrow> (string \<Rightarrow> string option)
     \<Rightarrow> http_request \<Rightarrow> (exn + http_response) \<times> call list" where
  "approval_webhook_try hmac_hex repr tr env req =
     (case get_json req of
        Inl m \<Rightarrow> (Inl (ValueError m), [])
      | Inr req_body \<Rightarrow>
          (case signature_ok hmac_hex env req of
             Inl e \<Rightarrow> (Inl e, [])
           | Inr ok \<Rightarrow>
               if \<not> ok then (Inr (error_response 401 ''Invalid signature''), [])
               else
                 (case env ''GITHUB_TOKEN'' of
                    None \<Rightarrow> (Inr (error_response 500 ''GitHub configuration is missing (GITHUB_TOKEN)''), [])
                  | Some github_token \<Rightarrow>
                      if github_token = []
                      then (Inr (error_response 500 ''GitHub configuration is missing (GITHUB_TOKEN)''), [])
                      else
                        (case webhook_fields req_body of
                           Inl e \<Rightarrow> (Inl e, [])
                         | Inr (action, deployment_callback_url, deployment, repository, workflow) \<Rightarrow>
                             let event_type =
                                   (case req_headers req ''X-GitHub-Event'' of None \<Rightarrow> [] | Some v \<Rightarrow> v)
                             in if event_type \<noteq> ''deployment_protection_rule'' \<or> action \<noteq> JStr ''requested''
                                then (Inr skip_response, [])
                                else decide repr tr github_token (authorized_user_of env) req_body
                                       deployment_callback_url deployment repository workflow))))"

text \<open>
  The handler: \<open>except ValueError\<close> answers 400, \<open>except Exception\<close> answers 500, each with
  the text of the exception.
\<close>

definition approval_webhook ::
  "(string \<Rightarrow> string \<Rightarrow> string) \<Rightarrow> (json \<Rightarrow> string) \<Rightarrow> transport \<Rightarrow> (string \<Rightarrow> string option)
     \<Rightarrow> http_request \<Rightarrow> http_response \<times> call list" where
  "approval_webhook hmac_hex repr tr env req =
     (case approval_webhook_try hmac_hex repr tr env req of
        (Inr response, calls) \<Rightarrow> (response, calls)
      | (Inl e, calls) \<Rightarrow>
          if is_ValueError e
          then (error_response 400 (''Invalid request body: '' @ exn_str e), calls)
          else (error_response 500 (''Unexpected error processing webhook: '' @ exn_str e), calls))"

section \<open>Reading the trace of Gateway calls\<close>

fun is_decision :: "call \<Rightarrow> bool" where
  "is_decision (ApproveDeployment u m) = True"
| "is_decision (RejectDeployment u m) = True"
| "is_decision c = False"

fun is_rejection :: "call \<Rightarrow> bool" where
  "is_rejection (RejectDeployment u m) = True"
| "is_rejection c = False"

fun is_summary :: "call \<Rightarrow> bool" where
  "is_summary (AddWorkflowSummaryError ow n r m) = True"
| "is_summary c = False"

text \<open>
  The comparison in the specification's words: the resolved identity, normalised,
  equals the normalised authorized identity up to case. A resolved value that is not
  a string matches nothing.
\<close>

definition authorised :: "string \<Rightarrow> json \<Rightarrow> bool" where
  "authorised authorized_user initiated_by =
     (case initiated_by of
        JStr s \<Rightarrow> lower (extractUsername s) = lower (extractUsername authorized_user)
      | _ \<Rightarrow> False)"

section \<open>The resolution chain in the specification's words\<close>

text \<open>
  \<open>field v k\<close> is the entry \<open>k\<close> of the object \<open>v\<close> when there is one; \<open>entry v k\<close> reads an
  absent entry as \<open>None\<close>.
\<close>

fun field :: "json \<Rightarrow> string \<Rightarrow> json option" where
  "field (JObj kv) k = map_of kv k"
| "field v k = None"

definition entry :: "json \<Rightarrow> string \<Rightarrow> json" where
  "entry v k = (case field v k of Some x \<Rightarrow> x | None \<Rightarrow> JNull)"

fun is_object :: "json \<Rightarrow> bool" where
  "is_object (JObj kv) = True"
| "is_object v = False"

fun object_or_absent :: "json option \<Rightarrow> bool" where
  "object_or_absent None = True"
| "object_or_absent (Some v) = is_object v"

text \<open>Strategy 1: \<open>deployment.payload.actor\<close>.\<close>

definition deployment_actor :: "json \<Rightarrow> json" where
  "deployment_actor webhook_payload =
     entry (entry (entry webhook_payload ''deployment'') ''payload'') ''actor''"

text \<open>Strategy 2: \<open>workflow.triggering_actor\<close>, the value itself, or for an object its
  \<open>login\<close> and failing that its \<open>name\<close>.\<close>

definition triggering_actor :: "json \<Rightarrow> json" where
  "triggering_actor webhook_payload =
     (case field (entry webhook_payload ''workflow'') ''triggering_actor'' of
        None \<Rightarrow> JNull
      | Some (JObj kv) \<Rightarrow> py_or (entry (JObj kv) ''login'') (entry (JObj kv) ''name'')
      | Some v \<Rightarrow> v)"

text \<open>Strategy 3: \<open>sender.login\<close>.\<close>

definition sender_login :: "json \<Rightarrow> json" where
  "sender_login webhook_payload = entry (entry webhook_payload ''sender'') ''login''"

text \<open>Strategy 4 in the specification's words: from the workflow run, prefer
  \<open>triggering_actor.login\<close>, then \<open>actor.login\<close>.\<close>

definition run_initiator :: "json \<Rightarrow> json" where
  "run_initiator workflow_run =
     py_or (entry (entry workflow_run ''triggering_actor'') ''login'')
           (entry (entry workflow_run ''actor'') ''login'')"

text \<open>Strategy 4 as amended: \<open>triggering_actor.login\<close> when the run has a
  \<open>triggering_actor\<close> entry, \<open>actor.login\<close> only when it has none.\<close>

definition run_initiator_amended :: "json \<Rightarrow> json" where
  "run_initiator_amended workflow_run =
     (case field workflow_run ''triggering_actor'' of
        Some ta \<Rightarrow> entry ta ''login''
      | None \<Rightarrow> entry (entry workflow_run ''actor'') ''login'')"

definition workflow_id :: "json \<Rightarrow> json" where
  "workflow_id webhook_payload = entry (entry webhook_payload ''workflow'') ''id''"

definition repository_owner :: "json \<Rightarrow> json" where
  "repository_owner webhook_payload =
     entry (entry (entry webhook_payload ''repository'') ''owner'') ''login''"

definition repository_name :: "json \<Rightarrow> json" where
  "repository_name webhook_payload = entry (entry webhook_payload ''repository'') ''name''"

text \<open>The network fallback is due: the first three strategies yield nothing, and the
  workflow id and the repository owner and name are present.\<close>

definition network_fallback :: "json \<Rightarrow> bool" where
  "network_fallback webhook_payload =
     (\<not> truthy (deployment_actor webhook_payload)
      \<and> \<not> truthy (triggering_actor webhook_payload)
      \<and> \<not> truthy (sender_login webhook_payload)
      \<and> truthy (workflow_id webhook_payload)
      \<and> truthy (repository_owner webhook_payload)
      \<and> truthy (repository_name webhook_payload))"

text \<open>
  The events of the data model: the payload is an object, and \<open>deployment\<close>,
  \<open>deployment.payload\<close>, \<open>workflow\<close>, \<open>sender\<close>, \<open>repository\<close> and \<open>repository.owner\<close> are
  objects when present. A run of the data model is absent or an object whose
  \<open>triggering_actor\<close> and \<open>actor\<close> are objects when present.
\<close>

definition event_shape :: "json \<Rightarrow> bool" where
  "event_shape webhook_payload =
     (is_object webhook_payload
      \<and> object_or_absent (field webhook_payload ''deployment'')
      \<and> object_or_absent (field (entry webhook_payload ''deployment'') ''payload'')
      \<and> object_or_absent (field webhook_payload ''workflow'')
      \<and> object_or_absent (field webhook_payload ''sender'')
      \<and> object_or_absent (field webhook_payload ''repository'')
      \<and> object_or_absent (field (entry webhook_payload ''repository'') ''owner''))"

definition run_shape :: "json \<Rightarrow> bool" where
  "run_shape workflow_run =
     (workflow_run = JNull
      \<or> (is_object workflow_run
          \<and> object_or_absent (field workflow_run ''triggering_actor'')
          \<and> object_or_absent (field workflow_run ''actor'')))"

section \<open>Concrete environments for the examples\<close>

text \<open>A transport on which every request fails to connect.\<close>

definition offline :: transport where
  "offline token rq = Inl (RequestException ''connection refused'')"

text \<open>A transport that answers every request with status 200 and the JSON body \<open>[]\<close>.\<close>

definition empty_list_reply :: transport where
  "empty_list_reply token rq =
     Inr \<lparr>resp_status = 200, resp_reason = [], resp_text = ''[]'', resp_json = Inr (JArr [])\<rparr>"

text \<open>
  What the library does with the callback URL \<open>https://a..b/\<close>: the POST raises the
  \<open>LocationParseError\<close> of urllib3, a \<open>ValueError\<close> that is not a \<open>RequestException\<close>. Every
  other request fails to connect.
\<close>

definition empty_label_host :: transport where
  "empty_label_host token rq =
     (case rq of
        PostCallback url payload \<Rightarrow>
          if url = JStr ''https://a..b/''
          then Inl (ValueError (''Failed to parse: '' @ quoted ''a..b''
                                  @ '', label empty or too long''))
          else Inl (RequestException ''connection refused'')
      | _ \<Rightarrow> Inl (RequestException ''connection refused''))"

text \<open>A digest function, a \<open>repr\<close>, an environment holding only the token, and a request
  that carries the protection-rule header and a given parsed body.\<close>

definition zero_digest :: "string \<Rightarrow> string \<Rightarrow> string" where
  "zero_digest secret payload_body = replicate 64 CHR ''0''"

definition plain_repr :: "json \<Rightarrow> string" where
  "plain_repr v = ''...''"

definition token_only :: "string \<Rightarrow> string option" where
  "token_only = map_of [(''GITHUB_TOKEN'', ''t'')]"

definition protection_request :: "json \<Rightarrow> http_request" where
  "protection_request payload =
     \<lparr>get_json = Inr payload, get_body = [],
      req_headers = map_of [(''X-GitHub-Event'', ''deployment_protection_rule'')]\<rparr>"

text \<open>An event of \<open>mallory\<close> for \<open>prod\<close> without a \<open>deployment_callback_url\<close>.\<close>

definition no_callback_event :: json where
  "no_callback_event =
     JObj [(''action'', JStr ''requested''),
           (''deployment'', JObj [(''environment'', JStr ''prod'')]),
           (''sender'', JObj [(''login'', JStr ''mallory'')])]"

text \<open>A configuration with a webhook secret, and a request whose signature header holds
  a character outside ASCII (code point 233).\<close>

definition secret_env :: "string \<Rightarrow> string option" where
  "secret_env = map_of [(''GITHUB_WEBHOOK_SECRET'', ''k''), (''GITHUB_TOKEN'', ''t'')]"

definition non_ascii_signature_request :: http_request where
  "non_ascii_signature_request =
     \<lparr>get_json = Inr no_callback_event, get_body = ''{}'',
      req_headers = map_of [(''X-GitHub-Event'', ''deployment_protection_rule''),
                            (''X-Hub-Signature-256'', ''sha256='' @ [CHR 0xE9])]\<rparr>"

text \<open>Two complete events for \<open>prod\<close> with workflow run 7: one sent by \<open>mallory\<close>, one by
  the placeholder identity in another case.\<close>

definition event_of :: "string \<Rightarrow> json" where
  "event_of login =
     JObj [(''action'', JStr ''requested''),
           (''deployment_callback_url'', JStr ''https://api.github.com/callback''),
           (''deployment'', JObj [(''environment'', JStr ''prod'')]),
           (''workflow'', JObj [(''id'', JInt 7)]),
           (''sender'', JObj [(''login'', JStr login)])]"

definition mallory_event :: json where
  "mallory_event = event_of ''mallory''"

definition placeholder_event :: json where
  "placeholder_event = event_of ''Apzw3prd_Bcp''"

text \<open>The same events with the callback URL \<open>https://a..b/\<close>.\<close>

definition empty_label_event_of :: "string \<Rightarrow> json" where
  "empty_label_event_of login =
     JObj [(''action'', JStr ''requested''),
           (''deployment_callback_url'', JStr ''https://a..b/''),
           (''deployment'', JObj [(''environment'', JStr ''prod'')]),
           (''workflow'', JObj [(''id'', JInt 7)]),
           (''sender'', JObj [(''login'', JStr login)])]"

text \<open>An event with both a deployment actor and a sender; events whose workflow names a
  triggering actor by login and name, or by name alone; an event that names only its
  workflow run and repository.\<close>

definition alice_bob_event :: json where
  "alice_bob_event =
     JObj [(''deployment'', JObj [(''payload'', JObj [(''actor'', JStr ''alice'')])]),
           (''sender'', JObj [(''login'', JStr ''bob'')])]"

definition login_and_name_event :: json where
  "login_and_name_event =
     JObj [(''workflow'', JObj [(''triggering_actor'',
              JObj [(''login'', JStr ''frank''), (''name'', JStr ''Frank F.'')])]),
           (''sender'', JObj [(''login'', JStr ''bob'')])]"

definition name_only_event :: json where
  "name_only_event =
     JObj [(''workflow'', JObj [(''triggering_actor'', JObj [(''name'', JStr ''Grace G.'')])]),
           (''sender'', JObj [(''login'', JStr ''bob'')])]"

definition run_only_event :: json where
  "run_only_event =
     JObj [(''workflow'', JObj [(''id'', JInt 7)]),
           (''repository'', JObj [(''owner'', JObj [(''login'', JStr ''octo'')]),
                                  (''name'', JStr ''app'')])]"

text \<open>Transports that answer every request with a workflow run: one whose triggering
  actor has a login, one that has no triggering actor, and one whose triggering actor
  has no login.\<close>

definition reply_with :: "json \<Rightarrow> transport" where
  "reply_with j token rq =
     Inr \<lparr>resp_status = 200, resp_reason = [], resp_text = ''{...}'', resp_json = Inr j\<rparr>"

definition run_of_dave :: json where
  "run_of_dave =
     JObj [(''triggering_actor'', JObj [(''login'', JStr ''dave'')]),
           (''actor'', JObj [(''login'', JStr ''erin'')])]"

definition run_of_erin :: json where
  "run_of_erin = JObj [(''actor'', JObj [(''login'', JStr ''erin'')])]"

definition run_without_login :: json where
  "run_without_login =
     JObj [(''triggering_actor'', JObj [(''id'', JInt 1)]),
           (''actor'', JObj [(''login'', JStr ''erin'')])]"

section \<open>Facts about the string methods\<close>

lemma split_on_nonempty: "split_on c s \<noteq> []"
  by (induction s) (auto split: list.splits)

lemma hd_split_on: "hd (split_on c s) = takeWhile (\<lambda>x. x \<noteq> c) s"
  using split_on_nonempty[of c] by (induction s) (auto split: list.splits)

lemma split_on_notin: "c \<notin> set s \<Longrightarrow> split_on c s = [s]"
  by (induction s) (auto split: list.splits)

lemma split_on_in: "c \<in> set s \<Longrightarrow> \<exists>w v vs. split_on c s = w # v # vs"
proof (induction s)
  case Nil
  then show ?case by simp
next
  case (Cons x xs)
  show ?case
  proof (cases "x = c")
    case True
    then show ?thesis
      using split_on_nonempty[of c xs] by (cases "split_on c xs") auto
  next
    case False
    then have "c \<in> set xs" using Cons.prems by simp
    then obtain w v vs where "split_on c xs = w # v # vs" using Cons.IH by blast
    then show ?thesis using False by simp
  qed
qed

lemma last_split_on: "last (split_on c s) = rev (takeWhile (\<lambda>x. x \<noteq> c) (rev s))"
proof (induction s)
  case Nil
  then show ?case by simp
next
  case (Cons x xs)
  show ?case
  proof (cases "c \<in> set xs")
    case True
    then obtain w v vs where "split_on c xs = w # v # vs" using split_on_in by blast
    then have "last (split_on c (x # xs)) = last (split_on c xs)" by simp
    moreover have "takeWhile (\<lambda>x. x \<noteq> c) (rev xs @ [x]) = takeWhile (\<lambda>x. x \<noteq> c) (rev xs)"
      using True by (simp add: takeWhile_append1)
    ultimately show ?thesis using Cons.IH by simp
  next
    case False
    then have sp: "split_on c xs = [xs]" by (simp add: split_on_notin)
    have tw: "takeWhile (\<lambda>x. x \<noteq> c) (rev xs @ [x]) = rev xs @ takeWhile (\<lambda>x. x \<noteq> c) [x]"
      by (rule takeWhile_append2) (use False in auto)
    show ?thesis unfolding rev.simps tw using sp by simp
  qed
qed

lemma is_substring_single: "is_substring [c] s = (c \<in> set s)"
  by (induction s) auto

lemma strip_step_str:
  "strip_step c b (JStr s) =
     Inr (JStr (if c \<in> set s then (if b then after_last c s else before_first c s) else s))"
  by (simp add: strip_step_def and_then_def is_substring_single hd_split_on last_split_on
      after_last_def before_first_def)

lemma trim_strip: "trim s = strip s"
proof -
  have "rev (dropWhile py_isspace (rev t)) =
          take (length t - length (takeWhile py_isspace (rev t))) t" for t
    by (simp add: dropWhile_eq_drop rev_drop)
  then show ?thesis by (simp add: trim_def strip_def Let_def)
qed

lemma extract_username_str: "extract_username (JStr s) = Inr (extractUsername s)"
  by (simp add: extract_username_def extractUsername_def trim_strip strip_step_str and_then_def Let_def
      strip_def)

section \<open>The normalisation of a user name\<close>

text \<open>
  Claim C9. On every string \<open>_extract_username\<close> returns what the specification's
  \<open>extractUsername\<close> describes: the part before the first \<open>@\<close> when there is one, then
  the part after the last backslash when there is one, then the part after the last
  slash when there is one, then the result without surrounding whitespace. The five
  examples of the specification follow, and two inputs whose result depends on the
  trimming.
\<close>

theorem extract_username_refines:
  "extract_username (JStr raw) = Inr (extractUsername raw)
   \<and> extract_username (JStr ''user@example.com'') = Inr ''user''
   \<and> extract_username (JStr (''DOMAIN'' @ [CHR 0x5C] @ ''user'')) = Inr ''user''
   \<and> extract_username (JStr ''org/user'') = Inr ''user''
   \<and> extract_username (JStr ''plainuser'') = Inr ''plainuser''
   \<and> extract_username (JStr []) = Inr []
   \<and> extract_username (JStr '' carol '') = Inr ''carol''
   \<and> extract_username (JStr ([CHR 0x09] @ ''org/ dave @example.com'')) = Inr ''dave''"
proof -
  have ex: "extract_username (JStr ''user@example.com'') = Inr ''user''"
    "extract_username (JStr (''DOMAIN'' @ [CHR 0x5C] @ ''user'')) = Inr ''user''"
    "extract_username (JStr ''org/user'') = Inr ''user''"
    "extract_username (JStr ''plainuser'') = Inr ''plainuser''"
    "extract_username (JStr []) = Inr []"
    "extract_username (JStr '' carol '') = Inr ''carol''"
    "extract_username (JStr ([CHR 0x09] @ ''org/ dave @example.com'')) = Inr ''dave''"
    by code_simp+
  show ?thesis
    using extract_username_str [of raw] ex by simp
qed

theorem extract_username_refines_witness:
  "extractUsername ('' CORP'' @ [CHR 0x5C] @ '' team @example.com '') = ''team''"
proof -
  have "extract_username (JStr ('' CORP'' @ [CHR 0x5C] @ '' team @example.com '')) = Inr ''team''"
    by code_simp
  then show ?thesis
    using extract_username_refines [of "'' CORP'' @ [CHR 0x5C] @ '' team @example.com ''"] by simp
qed

section \<open>The result of the validation\<close>

lemmas resolve_defs = resolve_initiator_def local_methods_def method1_def method2_def method3_def
  method4_def repo_owner_and_name_def from_workflow_run_def and_then_def py_or_def

lemma lower_carol: "lower ''Carol'' = ''carol''" "lower ''carol'' = ''carol''"
  by code_simp+

text \<open>
  Claim C8. When the resolution ends without an exception and leaves no identity (the
  value the four methods leave is empty or \<open>None\<close>), \<open>validate_deployment_user\<close> returns
  exactly \<open>{is_valid: false, initiated_by: "Unknown", error: "Could not determine
  deployment initiator"}\<close>.
\<close>

theorem no_initiator_unknown:
  assumes "resolve_initiator tr token webhook_payload = (Inr (run_id, initiated_by), calls)"
    and "\<not> truthy initiated_by"
  shows "fst (validate_deployment_user tr token authorized_user webhook_payload) =
           JObj [(''is_valid'', JBool False), (''initiated_by'', JStr ''Unknown''),
                 (''error'', JStr ''Could not determine deployment initiator'')]"
  using assms by (simp add: validate_deployment_user_def check_initiator_def unknown_initiator_def)

theorem no_initiator_unknown_witness:
  "fst (validate_deployment_user offline ''t'' ''carol''
          (JObj [(''workflow'', JObj [(''id'', JInt 7)]), (''sender'', JObj [(''login'', JStr [])])])) =
     JObj [(''is_valid'', JBool False), (''initiated_by'', JStr ''Unknown''),
           (''error'', JStr ''Could not determine deployment initiator'')]"
proof -
  have r: "resolve_initiator offline ''t''
          (JObj [(''workflow'', JObj [(''id'', JInt 7)]), (''sender'', JObj [(''login'', JStr [])])])
        = (Inr (JInt 7, JStr []), [])"
    by (simp add: resolve_defs)
  show ?thesis using no_initiator_unknown [OF r] by simp
qed

lemma local_methods_run_id:
  "local_methods webhook_payload = Inr (run_id, i) \<Longrightarrow>
     \<exists>workflow. py_get webhook_payload ''workflow'' (JObj []) = Inr workflow
                \<and> py_get workflow ''id'' JNull = Inr run_id"
  by (auto simp: local_methods_def and_then_def split: sum.splits)

lemma resolve_initiator_run_id:
  "resolve_initiator tr token webhook_payload = (Inr (run_id, i), calls) \<Longrightarrow>
     \<exists>workflow. py_get webhook_payload ''workflow'' (JObj []) = Inr workflow
                \<and> py_get workflow ''id'' JNull = Inr run_id"
proof -
  assume r: "resolve_initiator tr token webhook_payload = (Inr (run_id, i), calls)"
  then obtain i3 where "local_methods webhook_payload = Inr (run_id, i3)"
    by (auto simp: resolve_initiator_def split: sum.splits prod.splits)
  then show ?thesis by (rule local_methods_run_id)
qed

text \<open>
  Claim C3. When the resolution yields a non-empty identity string \<open>s\<close>, the result has
  \<open>is_valid\<close> true exactly when \<open>extractUsername s\<close> and \<open>extractUsername\<close> of the
  authorized identity are equal after lower-casing; \<open>initiated_by\<close> is the raw \<open>s\<close>,
  \<open>username_checked\<close> the normalised \<open>extractUsername s\<close>, and \<open>run_id\<close>, which is the
  \<open>id\<close> of the payload's \<open>workflow\<close>, is present exactly when that id is known (Python's
  \<open>if run_id\<close>).
\<close>

theorem validation_compares_normalised:
  assumes "resolve_initiator tr token webhook_payload = (Inr (run_id, JStr s), calls)"
    and "s \<noteq> []"
  shows "fst (validate_deployment_user tr token authorized_user webhook_payload) =
           JObj ([(''is_valid'',
                     JBool (lower (extractUsername s) = lower (extractUsername authorized_user))),
                  (''initiated_by'', JStr s),
                  (''username_checked'', JStr (extractUsername s))]
                 @ (if truthy run_id then [(''run_id'', run_id)] else []))
         \<and> (\<exists>workflow. py_get webhook_payload ''workflow'' (JObj []) = Inr workflow
                \<and> py_get workflow ''id'' JNull = Inr run_id)"
  using assms resolve_initiator_run_id [OF assms(1)]
  by (simp add: validate_deployment_user_def check_initiator_def extract_username_str and_then_def)

theorem validation_compares_normalised_witness:
  "fst (validate_deployment_user offline ''t'' '' corp/carol ''
          (JObj [(''workflow'', JObj [(''id'', JInt 7)]),
                 (''sender'', JObj [(''login'', JStr (''ACME'' @ [CHR 0x5C] @ '' Carol @example.com''))])])) =
     JObj [(''is_valid'', JBool True),
           (''initiated_by'', JStr (''ACME'' @ [CHR 0x5C] @ '' Carol @example.com'')),
           (''username_checked'', JStr ''Carol''), (''run_id'', JInt 7)]
   \<and> fst (validate_deployment_user offline ''t'' ''dave''
          (JObj [(''sender'', JObj [(''login'', JStr '' Carol '')])])) =
     JObj [(''is_valid'', JBool False), (''initiated_by'', JStr '' Carol ''),
           (''username_checked'', JStr ''Carol'')]"
proof -
  have r: "resolve_initiator offline ''t''
          (JObj [(''workflow'', JObj [(''id'', JInt 7)]),
                 (''sender'', JObj [(''login'', JStr (''ACME'' @ [CHR 0x5C] @ '' Carol @example.com''))])])
        = (Inr (JInt 7, JStr (''ACME'' @ [CHR 0x5C] @ '' Carol @example.com'')), [])"
    by (simp add: resolve_defs)
  have r': "resolve_initiator offline ''t'' (JObj [(''sender'', JObj [(''login'', JStr '' Carol '')])])
        = (Inr (JNull, JStr '' Carol ''), [])"
    by (simp add: resolve_defs)
  have e: "extract_username (JStr (''ACME'' @ [CHR 0x5C] @ '' Carol @example.com'')) = Inr ''Carol''"
    "extract_username (JStr '' corp/carol '') = Inr ''carol''"
    "extract_username (JStr '' Carol '') = Inr ''Carol''"
    "extract_username (JStr ''dave'') = Inr ''dave''"
    by code_simp+
  have l: "lower ''dave'' = ''dave''" by code_simp
  have n: "''ACME'' @ [CHR 0x5C] @ '' Carol @example.com'' \<noteq> []" "'' Carol '' \<noteq> []" by simp_all
  show ?thesis
    using validation_compares_normalised [OF r n(1), of "'' corp/carol ''"]
      validation_compares_normalised [OF r' n(2), of "''dave''"]
      e [unfolded extract_username_str]
    by (simp add: lower_carol l)
qed

section \<open>The Gateway operations case by case\<close>

lemmas gateway_defs = send_def raise_for_status_def json_of_def except_RequestException_def
  and_then_def

text \<open>
  Each operation by the outcome of its HTTP call: a \<open>RequestException\<close> becomes the
  failure value of the operation, an exception of another class leaves the operation.
\<close>

lemma get_workflow_run_eq:
  "get_workflow_run tr token repo_owner repo_name run_id =
     (case tr token (GetRun repo_owner repo_name run_id) of
        Inl e \<Rightarrow> if is_RequestException e then Inr JNull else Inl e
      | Inr r \<Rightarrow>
          if 400 \<le> resp_status r \<and> resp_status r < 600 then Inr JNull
          else (case resp_json r of
                  Inl e \<Rightarrow> if is_RequestException e then Inr JNull else Inl e
                | Inr j \<Rightarrow> Inr j))"
  by (auto simp: get_workflow_run_def gateway_defs split: sum.splits)

lemma approve_deployment_eq:
  "approve_deployment tr token callback_url comment =
     (case tr token (PostCallback callback_url (callback_payload ''approved'' comment)) of
        Inl e \<Rightarrow>
          if is_RequestException e
          then Inr (JObj [(''error'', JStr (''Error approving deployment: '' @ exn_str e))])
          else Inl e
      | Inr r \<Rightarrow>
          if 400 \<le> resp_status r \<and> resp_status r < 600
          then Inr (JObj [(''error'', JStr (''Error approving deployment: '' @ resp_reason r))])
          else if resp_text r \<noteq> []
          then (case resp_json r of
                  Inl e \<Rightarrow>
                    if is_RequestException e
                    then Inr (JObj [(''error'', JStr (''Error approving deployment: '' @ exn_str e))])
                    else Inl e
                | Inr j \<Rightarrow> Inr j)
          else Inr (JObj [(''status'', JStr ''approved'')]))"
  by (auto simp: approve_deployment_def gateway_defs split: sum.splits)

lemma reject_deployment_eq:
  "reject_deployment tr token callback_url comment =
     (case tr token (PostCallback callback_url (callback_payload ''rejected'' comment)) of
        Inl e \<Rightarrow>
          if is_RequestException e
          then Inr (JObj [(''error'', JStr (''Error rejecting deployment: '' @ exn_str e))])
          else Inl e
      | Inr r \<Rightarrow>
          if 400 \<le> resp_status r \<and> resp_status r < 600
          then Inr (JObj [(''error'', JStr (''Error rejecting deployment: '' @ resp_reason r))])
          else if resp_text r \<noteq> []
          then (case resp_json r of
                  Inl e \<Rightarrow>
                    if is_RequestException e
                    then Inr (JObj [(''error'', JStr (''Error rejecting deployment: '' @ exn_str e))])
                    else Inl e
                | Inr j \<Rightarrow> Inr j)
          else Inr (JObj [(''status'', JStr ''rejected'')]))"
  by (auto simp: reject_deployment_def gateway_defs split: sum.splits)

lemma add_workflow_summary_error_eq:
  "add_workflow_summary_error tr token repo_owner repo_name run_id error_message =
     (case tr token (GetJobs repo_owner repo_name run_id) of
        Inl e \<Rightarrow> if is_RequestException e then Inr False else Inl e
      | Inr r \<Rightarrow>
          if 400 \<le> resp_status r \<and> resp_status r < 600 then Inr False
          else (case resp_json r of
                  Inl e \<Rightarrow> if is_RequestException e then Inr False else Inl e
                | Inr (JObj kv) \<Rightarrow>
                    Inr (truthy (case map_of kv ''jobs'' of Some v \<Rightarrow> v | None \<Rightarrow> JArr []))
                | Inr j \<Rightarrow> Inl (no_attribute j ''get'')))"
  by (auto simp: add_workflow_summary_error_def gateway_defs no_attribute_def
      split: sum.splits json.splits)

text \<open>What the \<open>except\<close> clauses do achieve: no \<open>RequestException\<close> leaves the Gateway.\<close>

lemma gateway_raises_no_RequestException:
  "get_workflow_run tr token repo_owner repo_name run_id = Inl e \<Longrightarrow> \<not> is_RequestException e"
  "approve_deployment tr token callback_url comment = Inl e \<Longrightarrow> \<not> is_RequestException e"
  "reject_deployment tr token callback_url comment = Inl e \<Longrightarrow> \<not> is_RequestException e"
  "add_workflow_summary_error tr token repo_owner repo_name run_id error_message = Inl e
     \<Longrightarrow> \<not> is_RequestException e"
  by (auto simp: get_workflow_run_def approve_deployment_def reject_deployment_def
      add_workflow_summary_error_def except_RequestException_def split: sum.splits if_splits)

section \<open>The shape of a validation result\<close>

lemma strip_step_nonstr:
  "(\<And>s. u \<noteq> JStr s) \<Longrightarrow> strip_step c b u = Inr v \<Longrightarrow> v = u"
  by (cases u) (auto simp: strip_step_def and_then_def split: if_splits)

lemma extract_username_nonstr:
  assumes "\<And>s. i \<noteq> JStr s" and "truthy i"
  shows "\<exists>e. extract_username i = Inl e"
proof (rule ccontr)
  assume "\<nexists>e. extract_username i = Inl e"
  then obtain r where r: "extract_username i = Inr r" by (cases "extract_username i") auto
  from r assms(2) obtain u1 u2 u3 where
    s: "strip_step CHR ''@'' False i = Inr u1" "strip_step (CHR 0x5C) True u1 = Inr u2"
       "strip_step CHR ''/'' True u2 = Inr u3" "py_strip u3 = Inr r"
    by (auto simp: extract_username_def and_then_def split: sum.splits)
  have "u1 = i" using strip_step_nonstr[OF assms(1) s(1)] .
  then have "u2 = i" using strip_step_nonstr[OF _ s(2)] assms(1) by simp
  then have "u3 = i" using strip_step_nonstr[OF _ s(3)] assms(1) by simp
  then show False using s(4) assms(1) by (cases i) auto
qed

lemma check_initiator_shape:
  "check_initiator au rid i = Inr res \<Longrightarrow>
     \<exists>b v rest. res = JObj ((''is_valid'', JBool b) # (''initiated_by'', v) # rest)"
  by (auto simp: check_initiator_def unknown_initiator_def and_then_def split: if_splits sum.splits)

lemma validate_shape:
  "\<exists>b v rest. fst (validate_deployment_user tr token au P) =
      JObj ((''is_valid'', JBool b) # (''initiated_by'', v) # rest)"
proof (cases "resolve_initiator tr token P")
  case (Pair r cs)
  show ?thesis
  proof (cases r)
    case (Inl e)
    then show ?thesis using Pair by (auto simp add: validate_deployment_user_def error_result_def)
  next
    case (Inr p)
    obtain rid i where p: "p = (rid, i)" by (cases p)
    show ?thesis
    proof (cases "check_initiator au rid i")
      case (Inl e)
      then show ?thesis using Pair Inr p by (auto simp add: validate_deployment_user_def error_result_def)
    next
      case (Inr res)
      then show ?thesis using Pair \<open>r = Inr p\<close> p check_initiator_shape[OF Inr]
        by (auto simp add: validate_deployment_user_def)
    qed
  qed
qed

lemma method4_calls:
  "snd (method4 tr token P rid i) = [] \<or>
   (\<exists>ow n. snd (method4 tr token P rid i) = [GetWorkflowRun ow n rid])"
  by (auto simp: method4_def split: sum.splits prod.splits)

lemma resolve_calls:
  "snd (resolve_initiator tr token P) = [] \<or>
   (\<exists>ow n rid. snd (resolve_initiator tr token P) = [GetWorkflowRun ow n rid])"
proof (cases "local_methods P")
  case (Inl e)
  then show ?thesis by (simp add: resolve_initiator_def)
next
  case (Inr p)
  obtain rid i where p: "p = (rid, i)" by (cases p)
  have "snd (resolve_initiator tr token P) = snd (method4 tr token P rid i)"
    using Inr p by (auto simp: resolve_initiator_def split: sum.splits prod.splits)
  then show ?thesis using method4_calls[of tr token P rid i] by auto
qed

lemma validate_calls: "snd (validate_deployment_user tr token au P) = snd (resolve_initiator tr token P)"
  by (auto simp: validate_deployment_user_def split: sum.splits prod.splits)

section \<open>Exceptions at the Gateway and the validator\<close>

text \<open>The \<open>except Exception\<close> clause of the validator: whatever the resolution or the
  comparison raises becomes a result.\<close>

lemma validator_catches_everything:
  "fst (validate_deployment_user tr token authorized_user webhook_payload) =
     (case fst (resolve_initiator tr token webhook_payload) of
        Inl e \<Rightarrow>
          JObj [(''is_valid'', JBool False), (''initiated_by'', JStr ''Unknown''),
                (''error'', JStr (exn_str e))]
      | Inr (run_id, initiated_by) \<Rightarrow>
          (case check_initiator authorized_user run_id initiated_by of
             Inl e \<Rightarrow>
               JObj [(''is_valid'', JBool False), (''initiated_by'', JStr ''Unknown''),
                     (''error'', JStr (exn_str e))]
           | Inr result \<Rightarrow> result))"
  by (cases "resolve_initiator tr token webhook_payload")
     (auto simp: validate_deployment_user_def error_result_def split: sum.splits prod.splits)

text \<open>
  Claim C6 at inputs where an exception leaves the Gateway. For the callback URL
  \<open>https://a..b/\<close>, which comes from the webhook payload, the POST raises a \<open>ValueError\<close>
  that is not a \<open>RequestException\<close>: \<open>reject_deployment\<close> and \<open>approve_deployment\<close> raise it to
  their caller instead of returning the object with the \<open>error\<close> field. When the jobs
  request is answered with a JSON list, \<open>add_workflow_summary_error\<close> raises
  \<open>AttributeError\<close> instead of returning false.
\<close>

theorem gateway_lets_exceptions_through:
  "reject_deployment empty_label_host ''t'' (JStr ''https://a..b/'') ''no'' =
     Inl (ValueError (''Failed to parse: '' @ quoted ''a..b'' @ '', label empty or too long''))
   \<and> approve_deployment empty_label_host ''t'' (JStr ''https://a..b/'') ''ok'' =
     Inl (ValueError (''Failed to parse: '' @ quoted ''a..b'' @ '', label empty or too long''))
   \<and> add_workflow_summary_error empty_list_reply ''t'' (JStr ''octo'') (JStr ''app'') (JInt 7) ''no'' =
     Inl (AttributeError (quoted ''list'' @ '' object has no attribute '' @ quoted ''get''))"
  by (simp add: reject_deployment_eq approve_deployment_eq add_workflow_summary_error_eq
      empty_label_host_def empty_list_reply_def no_attribute_def)

section \<open>The request handler\<close>

lemma decide_eq:
  assumes df: "deployment_fields d r w = Inr (ow, n, envn, rid)"
    and v: "validate_deployment_user tr token au payload =
              (JObj ((''is_valid'', JBool b) # (''initiated_by'', v) # rest), cs)"
  shows "decide repr tr token au payload url d r w =
     (if b
      then ((case approve_deployment tr token url (approval_message repr v envn) of
               Inl e \<Rightarrow> Inl e
             | Inr ar \<Rightarrow> Inr (approved_response (approval_message repr v envn) v envn ar)),
            cs @ [ApproveDeployment url (approval_message repr v envn)])
      else (case reject_deployment tr token url (rejection_message repr envn) of
              Inl e \<Rightarrow> (Inl e, cs @ [RejectDeployment url (rejection_message repr envn)])
            | Inr rr \<Rightarrow>
                ((if truthy rid
                  then (case add_workflow_summary_error tr token ow n rid
                               (rejection_message repr envn) of
                          Inl e \<Rightarrow> Inl e
                        | Inr _ \<Rightarrow> Inr (rejected_response (rejection_message repr envn) v au rr))
                  else Inr (rejected_response (rejection_message repr envn) v au rr)),
                 cs @ RejectDeployment url (rejection_message repr envn) #
                   (if truthy rid
                    then [AddWorkflowSummaryError ow n rid (rejection_message repr envn)]
                    else []))))"
  using df v
  by (simp add: decide_def reject_def approve_def Let_def split: sum.splits)

lemma try_cases:
  assumes "approval_webhook_try h repr tr env req = (out, cs)"
  shows "cs = [] \<or>
    (\<exists>payload token url d r w.
        get_json req = Inr payload \<and> signature_ok h env req = Inr True \<and>
        env ''GITHUB_TOKEN'' = Some token \<and> token \<noteq> [] \<and>
        webhook_fields payload = Inr (JStr ''requested'', url, d, r, w) \<and>
        req_headers req ''X-GitHub-Event'' = Some ''deployment_protection_rule'' \<and>
        decide repr tr token (authorized_user_of env) payload url d r w = (out, cs))"
  using assms
  by (auto simp: approval_webhook_try_def Let_def
      split: sum.splits option.splits if_splits prod.splits)

lemma try_passes:
  assumes "get_json req = Inr payload" "signature_ok h env req = Inr True"
    "env ''GITHUB_TOKEN'' = Some token" "token \<noteq> []"
    "webhook_fields payload = Inr (JStr ''requested'', url, d, r, w)"
    "req_headers req ''X-GitHub-Event'' = Some ''deployment_protection_rule''"
  shows "approval_webhook_try h repr tr env req =
           decide repr tr token (authorized_user_of env) payload url d r w"
  using assms by (simp add: approval_webhook_try_def)

lemma webhook_calls: "snd (approval_webhook h repr tr env req) = snd (approval_webhook_try h repr tr env req)"
  by (auto simp: approval_webhook_def split: prod.splits sum.splits)

lemma webhook_fields_get:
  "webhook_fields payload = Inr (a, url, d, r, w) \<Longrightarrow>
     py_get payload ''action'' JNull = Inr a \<and> py_get payload ''deployment_callback_url'' JNull = Inr url"
  by (auto simp: webhook_fields_def and_then_def split: sum.splits)

lemma validate_no_decision:
  "c \<in> set (snd (validate_deployment_user tr token au P)) \<Longrightarrow>
     \<not> is_decision c \<and> \<not> is_summary c"
  using resolve_calls[of tr token P] by (auto simp: validate_calls)

lemma reject_calls:
  "c \<in> set (snd (reject repr tr token au vr url ow n envn rid)) \<Longrightarrow> is_decision c \<Longrightarrow>
     c = RejectDeployment url (rejection_message repr envn)"
  by (auto simp: reject_def Let_def split: sum.splits if_splits)

lemma approve_calls:
  "c \<in> set (snd (approve repr tr token vr url envn)) \<Longrightarrow>
     \<exists>m. c = ApproveDeployment url m"
  by (auto simp: approve_def Let_def split: sum.splits if_splits)

lemma decide_calls:
  assumes "c \<in> set (snd (decide repr tr token au payload url d r w))" and "is_decision c"
  shows "\<exists>m. c = ApproveDeployment url m \<or> c = RejectDeployment url m"
proof (cases "deployment_fields d r w")
  case (Inl e)
  then show ?thesis using assms by (simp add: decide_def)
next
  case (Inr q)
  obtain ow n envn rid where q: "q = (ow, n, envn, rid)" by (cases q)
  obtain vr cs where v: "validate_deployment_user tr token au payload = (vr, cs)"
    by (cases "validate_deployment_user tr token au payload")
  have cs: "c \<notin> set cs" using validate_no_decision[of c tr token au payload] v assms(2) by auto
  show ?thesis
  proof (cases "py_item vr ''is_valid''")
    case (Inl e)
    then show ?thesis using assms Inr q v cs by (simp add: decide_def)
  next
    case (Inr iv)
    show ?thesis
    proof (cases "truthy iv")
      case True
      then have "c \<in> set (snd (approve repr tr token vr url envn))"
        using assms \<open>deployment_fields d r w = Inr q\<close> q v cs Inr
        by (auto simp: decide_def split: prod.splits)
      then show ?thesis using approve_calls by blast
    next
      case False
      then have "c \<in> set (snd (reject repr tr token au vr url ow n envn rid))"
        using assms \<open>deployment_fields d r w = Inr q\<close> q v cs Inr
        by (auto simp: decide_def split: prod.splits)
      then show ?thesis using reject_calls assms(2) by blast
    qed
  qed
qed

section \<open>When the approve and reject operations are called\<close>

lemmas handler_defs = approval_webhook_def approval_webhook_try_def signature_ok_def
  webhook_fields_def deployment_fields_def decide_def reject_def approve_def
  authorized_user_of_def validate_deployment_user_def check_initiator_def
  rejection_message_def approval_message_def py_str_def rejected_response_def
  approved_response_def error_response_def skip_response_def Let_def

lemma lower_names:
  "lower ''mallory'' = ''mallory''" "lower ''APZW3PRD_BCP'' = ''apzw3prd_bcp''"
  "lower ''Apzw3prd_Bcp'' = ''apzw3prd_bcp''"
  by code_simp+

lemma plain_names:
  "extractUsername ''mallory'' = ''mallory''" "extractUsername ''APZW3PRD_BCP'' = ''APZW3PRD_BCP''"
  "extractUsername ''Apzw3prd_Bcp'' = ''Apzw3prd_Bcp''"
  by (simp_all add: extractUsername_def trim_strip strip_def py_isspace_def)

lemma no_callback_run:
  "approval_webhook zero_digest plain_repr offline token_only (protection_request no_callback_event) =
     (rejected_response
        ''El usuario utilizado para el despliegue no se encuentra autorizado para desplegar en prod''
        (JStr ''mallory'') ''APZW3PRD_BCP''
        (JObj [(''error'', JStr ''Error rejecting deployment: connection refused'')]),
      [RejectDeployment JNull
        ''El usuario utilizado para el despliegue no se encuentra autorizado para desplegar en prod''])"
  by (simp add: handler_defs resolve_defs reject_deployment_eq offline_def token_only_def
      protection_request_def no_callback_event_def extract_username_str lower_names plain_names)

text \<open>
  Claim C1, as the code has it. \<open>approve_deployment\<close> or \<open>reject_deployment\<close> is called only
  for a request whose body parsed, whose signature was accepted (or no secret is
  configured), for which a token is configured and which passed the event filter:
  header \<open>X-GitHub-Event\<close> equal to \<open>deployment_protection_rule\<close> and \<open>action\<close> equal to
  \<open>requested\<close>. The handler does not test \<open>deployment_callback_url\<close>: the operation is
  called with whatever the payload holds there, \<open>None\<close> when the field is absent.
\<close>

theorem decisions_follow_the_filter:
  assumes "c \<in> set (snd (approval_webhook h repr tr env req))" and "is_decision c"
  shows "\<exists>payload token url m.
           get_json req = Inr payload
           \<and> signature_ok h env req = Inr True
           \<and> env ''GITHUB_TOKEN'' = Some token \<and> token \<noteq> []
           \<and> req_headers req ''X-GitHub-Event'' = Some ''deployment_protection_rule''
           \<and> py_get payload ''action'' JNull = Inr (JStr ''requested'')
           \<and> py_get payload ''deployment_callback_url'' JNull = Inr url
           \<and> (c = ApproveDeployment url m \<or> c = RejectDeployment url m)"
proof -
  obtain out cs where t: "approval_webhook_try h repr tr env req = (out, cs)"
    by (cases "approval_webhook_try h repr tr env req")
  have c: "c \<in> set cs" using assms(1) t by (simp add: webhook_calls)
  then have "cs \<noteq> []" by auto
  then obtain payload token url d r w where p:
    "get_json req = Inr payload"
    "webhook_fields payload = Inr (JStr ''requested'', url, d, r, w)"
    "req_headers req ''X-GitHub-Event'' = Some ''deployment_protection_rule''"
    "decide repr tr token (authorized_user_of env) payload url d r w = (out, cs)"
    "signature_ok h env req = Inr True" "env ''GITHUB_TOKEN'' = Some token" "token \<noteq> []"
    using try_cases[OF t] by blast
  have "\<exists>m. c = ApproveDeployment url m \<or> c = RejectDeployment url m"
    using decide_calls[of c repr tr token "authorized_user_of env" payload url d r w] c p(4) assms(2)
    by simp
  then show ?thesis using p(1,3,5,6,7) webhook_fields_get[OF p(2)] by blast
qed

theorem decisions_follow_the_filter_witness:
  "\<exists>payload token url m.
      get_json (protection_request no_callback_event) = Inr payload
      \<and> signature_ok zero_digest token_only (protection_request no_callback_event) = Inr True
      \<and> token_only ''GITHUB_TOKEN'' = Some token \<and> token \<noteq> []
      \<and> req_headers (protection_request no_callback_event) ''X-GitHub-Event'' =
          Some ''deployment_protection_rule''
      \<and> py_get payload ''action'' JNull = Inr (JStr ''requested'')
      \<and> py_get payload ''deployment_callback_url'' JNull = Inr url
      \<and> (RejectDeployment JNull
            ''El usuario utilizado para el despliegue no se encuentra autorizado para desplegar en prod''
            = ApproveDeployment url m
          \<or> RejectDeployment JNull
            ''El usuario utilizado para el despliegue no se encuentra autorizado para desplegar en prod''
            = RejectDeployment url m)"
  by (rule decisions_follow_the_filter
        [of _ zero_digest plain_repr offline token_only "protection_request no_callback_event"])
     (simp_all add: no_callback_run)

text \<open>
  The claim as stated fails: an event that passes the filter and has no
  \<open>deployment_callback_url\<close> still leads to a call of \<open>reject_deployment\<close>, with
  \<open>callback_url = None\<close>.
\<close>

theorem reject_called_without_callback_url:
  "py_in ''deployment_callback_url'' no_callback_event = Inr False
   \<and> snd (approval_webhook zero_digest plain_repr offline token_only
            (protection_request no_callback_event)) =
       [RejectDeployment JNull
          ''El usuario utilizado para el despliegue no se encuentra autorizado para desplegar en prod'']"
  by (simp add: no_callback_run) (simp add: no_callback_event_def)

section \<open>The signature check\<close>

lemma prefix_ascii: "list_all is_ascii ''sha256=''"
  by (simp add: is_ascii_def)

text \<open>
  With a digest made of ASCII characters, as \<open>hexdigest\<close> gives it: the check returns
  false for an absent or empty header, it returns true exactly for the header
  \<open>"sha256=" + digest\<close>, and for an ASCII header it returns whether the two are equal.
\<close>

lemma verify_signature_missing:
  "verify_signature hmac_hex payload_body None secret = Inr False"
  "verify_signature hmac_hex payload_body (Some []) secret = Inr False"
  by (simp_all add: verify_signature_def)

lemma verify_signature_true_iff:
  assumes "list_all is_ascii (hmac_hex secret payload_body)"
  shows "verify_signature hmac_hex payload_body signature_header secret = Inr True
         \<longleftrightarrow> signature_header = Some (''sha256='' @ hmac_hex secret payload_body)"
  using assms prefix_ascii
  by (cases signature_header) (auto simp: verify_signature_def compare_digest_def)

lemma verify_signature_ascii:
  assumes "list_all is_ascii (hmac_hex secret payload_body)" "list_all is_ascii h" "h \<noteq> []"
  shows "verify_signature hmac_hex payload_body (Some h) secret =
           Inr (h = ''sha256='' @ hmac_hex secret payload_body)"
  using assms prefix_ascii by (auto simp: verify_signature_def compare_digest_def)

text \<open>
  Claim C2 at a header that is not ASCII. The header differs from the expected
  signature, so the claim (and the docstring: true if the signature is valid, false
  otherwise) asks for false; \<open>hmac.compare_digest\<close> raises \<open>TypeError\<close> instead, and the
  handler answers 500 where a failed check answers 401.
\<close>

theorem verify_signature_non_ascii_header:
  "verify_signature zero_digest ''{}'' (Some (''sha256='' @ [CHR 0xE9])) ''k'' =
     Inl (TypeError ''comparing strings with non-ASCII characters is not supported'')
   \<and> fst (approval_webhook zero_digest plain_repr offline secret_env non_ascii_signature_request) =
     error_response 500
       (''Unexpected error processing webhook: comparing strings with non-ASCII characters is not supported'')"
proof -
  have v: "verify_signature zero_digest ''{}'' (Some (''sha256='' @ [CHR 0xE9])) ''k'' =
     Inl (TypeError ''comparing strings with non-ASCII characters is not supported'')"
    by (simp add: verify_signature_def compare_digest_def is_ascii_def)
  show ?thesis
    using v
    by (simp add: approval_webhook_def approval_webhook_try_def signature_ok_def secret_env_def
        non_ascii_signature_request_def)
qed

section \<open>Facts for the decision\<close>

lemma validate_resolved:
  assumes "resolve_initiator tr token payload = (Inr (rid, i), cs)" and "truthy i"
  shows "\<exists>v rest. validate_deployment_user tr token au payload =
            (JObj ((''is_valid'', JBool (authorised au i)) # (''initiated_by'', v) # rest), cs)
          \<and> (\<forall>s. i = JStr s \<longrightarrow> v = i)"
proof (cases "\<exists>s. i = JStr s")
  case True
  then obtain s where s: "i = JStr s" by blast
  then show ?thesis using assms
    by (simp add: validate_deployment_user_def check_initiator_def extract_username_str
        and_then_def authorised_def)
next
  case False
  then obtain e where "extract_username i = Inl e"
    using extract_username_nonstr[of i] assms(2) by auto
  then have "validate_deployment_user tr token au payload = (error_result e, cs)"
    using assms by (simp add: validate_deployment_user_def check_initiator_def and_then_def)
  moreover have "\<not> authorised au i" using False by (cases i) (auto simp: authorised_def)
  ultimately show ?thesis using False by (auto simp: error_result_def)
qed

lemma rejection_message_nonempty: "rejection_message repr envn \<noteq> []"
  by (simp add: rejection_message_def)

lemma resolve_no_decision:
  "resolve_initiator tr token payload = (x, cs) \<Longrightarrow>
     filter is_decision cs = [] \<and> filter is_rejection cs = [] \<and> filter is_summary cs = []"
  using resolve_calls[of tr token payload] by auto

lemma mallory_facts:
  "webhook_fields mallory_event =
     Inr (JStr ''requested'', JStr ''https://api.github.com/callback'',
          JObj [(''environment'', JStr ''prod'')], JObj [], JObj [(''id'', JInt 7)])"
  "deployment_fields (JObj [(''environment'', JStr ''prod'')]) (JObj []) (JObj [(''id'', JInt 7)]) =
     Inr (JNull, JNull, JStr ''prod'', JInt 7)"
  "resolve_initiator tr ''t'' mallory_event = (Inr (JInt 7, JStr ''mallory''), [])"
  by (simp_all add: mallory_event_def event_of_def webhook_fields_def deployment_fields_def
      resolve_defs)

lemma token_only_facts:
  "signature_ok h token_only req = Inr True"
  "token_only ''GITHUB_TOKEN'' = Some ''t''"
  "authorized_user_of token_only = ''APZW3PRD_BCP''"
  by (simp_all add: signature_ok_def token_only_def authorized_user_of_def)

section \<open>The four methods on events of the data model\<close>

lemma is_objectE: "is_object v \<Longrightarrow> (\<And>kv. v = JObj kv \<Longrightarrow> thesis) \<Longrightarrow> thesis"
  by (cases v) auto

lemma object_or_absent_cases:
  "object_or_absent x \<Longrightarrow> x = None \<or> (\<exists>kv. x = Some (JObj kv))"
  by (cases x) (auto elim: is_objectE)

text \<open>Reading an object entry with a default.\<close>

lemma py_get_entry: "py_get (JObj kv) k JNull = Inr (entry (JObj kv) k)"
  by (simp add: entry_def split: option.splits)

lemma py_get_default_object:
  assumes "object_or_absent (field (JObj kv) k)"
  shows "\<exists>kv'. py_get (JObj kv) k (JObj []) = Inr (JObj kv')
           \<and> (\<forall>k'. entry (JObj kv') k' = entry (entry (JObj kv) k) k')
           \<and> (\<forall>k'. field (JObj kv') k' = field (entry (JObj kv) k) k')
           \<and> (truthy (JObj kv') \<longrightarrow> entry (JObj kv) k = JObj kv')"
  using object_or_absent_cases[OF assms] by (auto simp: entry_def)

lemma method1_shape:
  assumes "object_or_absent (field (JObj kv) ''payload'')"
  shows "method1 (JObj kv) = Inr (entry (entry (JObj kv) ''payload'') ''actor'')"
  using object_or_absent_cases[OF assms]
  by (auto simp: method1_def and_then_def entry_def split: option.splits)

lemma method2_shape:
  "method2 (JObj kv) i =
     Inr (if truthy i then i
          else (case map_of kv ''triggering_actor'' of
                  None \<Rightarrow> i
                | Some (JObj a) \<Rightarrow> py_or (entry (JObj a) ''login'') (entry (JObj a) ''name'')
                | Some v \<Rightarrow> v))"
  by (auto simp: method2_def and_then_def entry_def split: option.splits json.splits)

lemma method3_shape:
  "method3 (JObj kv) i = Inr (if \<not> truthy i \<and> kv \<noteq> [] then entry (JObj kv) ''login'' else i)"
  by (auto simp: method3_def entry_def split: option.splits)

lemma from_workflow_run_shape:
  assumes "run_shape run"
  shows "\<exists>v. from_workflow_run run i = Inr v
            \<and> (truthy (run_initiator_amended run) \<longrightarrow> v = run_initiator_amended run)
            \<and> (\<not> truthy (run_initiator_amended run) \<longrightarrow> \<not> truthy i \<longrightarrow> \<not> truthy v)"
proof (cases "run = JNull")
  case True
  then show ?thesis by (simp add: from_workflow_run_def run_initiator_amended_def entry_def)
next
  case False
  then obtain kv where r: "run = JObj kv"
    and t: "object_or_absent (field (JObj kv) ''triggering_actor'')"
    and a: "object_or_absent (field (JObj kv) ''actor'')"
    using assms by (auto simp: run_shape_def elim: is_objectE)
  show ?thesis
    using object_or_absent_cases[OF t] object_or_absent_cases[OF a]
    by (auto simp: r from_workflow_run_def run_initiator_amended_def entry_def and_then_def
        split: option.splits)
qed


lemma local_methods_shape:
  assumes "event_shape P"
  shows "\<exists>i. local_methods P = Inr (workflow_id P, i) \<and>
           (if truthy (deployment_actor P) then i = deployment_actor P
            else if truthy (triggering_actor P) then i = triggering_actor P
            else if truthy (sender_login P) then i = sender_login P
            else \<not> truthy i)"
proof -
  from assms obtain kv where P: "P = JObj kv" by (auto simp: event_shape_def elim: is_objectE)
  from assms P obtain dkv where d: "py_get (JObj kv) ''deployment'' (JObj []) = Inr (JObj dkv)"
    and d2: "\<And>k. field (JObj dkv) k = field (entry (JObj kv) ''deployment'') k"
            "\<And>k. entry (JObj dkv) k = entry (entry (JObj kv) ''deployment'') k"
    using py_get_default_object[of kv "''deployment''"] by (auto simp: event_shape_def)
  from assms P obtain wkv where w: "py_get (JObj kv) ''workflow'' (JObj []) = Inr (JObj wkv)"
    and w2: "\<And>k. field (JObj wkv) k = field (entry (JObj kv) ''workflow'') k"
            "\<And>k. entry (JObj wkv) k = entry (entry (JObj kv) ''workflow'') k"
    using py_get_default_object[of kv "''workflow''"] by (auto simp: event_shape_def)
  from assms P obtain skv where s: "py_get (JObj kv) ''sender'' (JObj []) = Inr (JObj skv)"
    and s2: "\<And>k. entry (JObj skv) k = entry (entry (JObj kv) ''sender'') k"
    using py_get_default_object[of kv "''sender''"] by (auto simp: event_shape_def)
  have m1: "method1 (JObj dkv) = Inr (deployment_actor P)"
    using assms P method1_shape[of dkv] d2 by (simp add: event_shape_def deployment_actor_def)
  have ta: "triggering_actor P =
      (case map_of wkv ''triggering_actor'' of
         None \<Rightarrow> JNull
       | Some (JObj a) \<Rightarrow> py_or (entry (JObj a) ''login'') (entry (JObj a) ''name'')
       | Some v \<Rightarrow> v)"
    using w2(1)[of "''triggering_actor''"] by (simp add: triggering_actor_def P)
  have sl: "sender_login P = entry (JObj skv) ''login''"
    by (simp add: sender_login_def P s2)
  have e: "entry (JObj []) ''login'' = JNull" by (simp add: entry_def)
  have id: "py_get (JObj wkv) ''id'' JNull = Inr (workflow_id P)"
    unfolding py_get_entry w2 workflow_id_def P ..
  have lm: "local_methods P =
      and_then (method2 (JObj wkv) (deployment_actor P)) (\<lambda>i2.
      and_then (method3 (JObj skv) i2) (\<lambda>i3. Inr (workflow_id P, i3)))"
    unfolding local_methods_def
    by (simp only: d[folded P] w[folded P] s[folded P] id m1 and_then_def sum.case)
  show ?thesis
    unfolding lm method2_shape method3_shape ta sl
    using e by (auto simp: and_then_def split: option.splits json.splits)
qed

lemma repo_owner_and_name_shape:
  assumes "event_shape P"
  shows "repo_owner_and_name P = Inr (repository_owner P, repository_name P)"
proof -
  from assms obtain kv where P: "P = JObj kv" by (auto simp: event_shape_def elim: is_objectE)
  from assms P obtain rkv where r: "py_get (JObj kv) ''repository'' (JObj []) = Inr (JObj rkv)"
    and r2: "\<And>k. field (JObj rkv) k = field (entry (JObj kv) ''repository'') k"
            "\<And>k. entry (JObj rkv) k = entry (entry (JObj kv) ''repository'') k"
    using py_get_default_object[of kv "''repository''"] by (auto simp: event_shape_def)
  have "object_or_absent (field (JObj rkv) ''owner'')"
    using assms P r2(1) by (simp add: event_shape_def)
  then obtain okv where o: "py_get (JObj rkv) ''owner'' (JObj []) = Inr (JObj okv)"
    and o2: "\<And>k. entry (JObj okv) k = entry (entry (JObj rkv) ''owner'') k"
    using py_get_default_object[of rkv "''owner''"] by auto
  have l: "py_get (JObj okv) ''login'' JNull = Inr (repository_owner P)"
    unfolding py_get_entry o2 r2 repository_owner_def P ..
  have n: "py_get (JObj rkv) ''name'' JNull = Inr (repository_name P)"
    unfolding py_get_entry r2 repository_name_def P ..
  show ?thesis
    unfolding repo_owner_and_name_def
    by (simp only: r[folded P] o l n and_then_def sum.case)
qed


lemmas chain_defs = deployment_actor_def triggering_actor_def sender_login_def run_initiator_def
  run_initiator_amended_def workflow_id_def repository_owner_def repository_name_def entry_def
  event_shape_def run_shape_def network_fallback_def py_or_def

text \<open>The two readings of strategy 4 agree on every run whose triggering actor, when
  there is one, has a login.\<close>

lemma run_initiator_agree:
  assumes "run_shape run"
    and "field run ''triggering_actor'' = None
         \<or> truthy (entry (entry run ''triggering_actor'') ''login'')"
  shows "run_initiator_amended run = run_initiator run"
  using assms
  by (cases run)
     (auto simp: run_shape_def run_initiator_def run_initiator_amended_def entry_def py_or_def
        split: option.splits)

section \<open>The rejection of an unauthorized initiator\<close>

text \<open>
  What holds when the Gateway calls return. Take an event that reaches the decision
  (the body parsed, the signature was accepted, a token is configured, the event passed
  the filter, the handler's reads of the payload succeed) whose resolved initiator is a
  non-empty string that does not match the authorized identity. If \<open>reject_deployment\<close>
  returns and the summary call, when it is made, returns too, the response is 200
  with \<open>status: "rejected"\<close>, and \<open>reject_deployment\<close> was called exactly once, with the
  non-empty message that ends in the environment.
\<close>

lemma mismatch_rejected_when_calls_return:
  assumes "get_json req = Inr payload" and "signature_ok h env req = Inr True"
    and "env ''GITHUB_TOKEN'' = Some token" and "token \<noteq> []"
    and "req_headers req ''X-GitHub-Event'' = Some ''deployment_protection_rule''"
    and "webhook_fields payload = Inr (JStr ''requested'', url, d, r, w)"
    and "deployment_fields d r w = Inr (ow, n, envn, rid)"
    and "resolve_initiator tr token payload = (Inr (rid', JStr s), cs)" and "s \<noteq> []"
    and "lower (extractUsername s) \<noteq> lower (extractUsername (authorized_user_of env))"
    and "reject_deployment tr token url (rejection_message repr envn) = Inr rr"
    and "truthy rid \<longrightarrow>
           (\<exists>ok. add_workflow_summary_error tr token ow n rid (rejection_message repr envn) = Inr ok)"
  shows "fst (approval_webhook h repr tr env req) =
              \<lparr>status_code = 200,
               body = JObj [(''status'', JStr ''rejected''),
                            (''reason'', JStr (rejection_message repr envn)),
                            (''initiated_by'', JStr s),
                            (''authorized_user'', JStr (authorized_user_of env)),
                            (''rejection_result'', rr)]\<rparr>
          \<and> snd (approval_webhook h repr tr env req) =
              cs @ RejectDeployment url (rejection_message repr envn) #
                (if truthy rid
                 then [AddWorkflowSummaryError ow n rid (rejection_message repr envn)] else [])
          \<and> filter is_rejection (snd (approval_webhook h repr tr env req)) =
              [RejectDeployment url (rejection_message repr envn)]
          \<and> rejection_message repr envn \<noteq> []
          \<and> rejection_message repr envn =
              ''El usuario utilizado para el despliegue no se encuentra autorizado para desplegar en ''
                @ py_str repr envn"
proof -
  have na: "\<not> authorised (authorized_user_of env) (JStr s)"
    using assms(10) by (simp add: authorised_def)
  obtain v rest where v:
    "validate_deployment_user tr token (authorized_user_of env) payload =
       (JObj ((''is_valid'', JBool (authorised (authorized_user_of env) (JStr s)))
              # (''initiated_by'', v) # rest), cs)" "v = JStr s"
    using validate_resolved[OF assms(8), of "authorized_user_of env"] assms(9) by auto
  have t: "approval_webhook_try h repr tr env req =
             decide repr tr token (authorized_user_of env) payload url d r w"
    using try_passes[OF assms(1,2,3,4,6,5)] .
  have dflt: "decide repr tr token (authorized_user_of env) payload url d r w =
      (Inr (rejected_response (rejection_message repr envn) (JStr s) (authorized_user_of env) rr),
       cs @ RejectDeployment url (rejection_message repr envn) #
         (if truthy rid then [AddWorkflowSummaryError ow n rid (rejection_message repr envn)]
          else []))"
    using decide_eq[OF assms(7) v(1)[unfolded v(2)]] na assms(11,12)
    by (auto split: sum.splits)
  have w: "approval_webhook h repr tr env req =
      (rejected_response (rejection_message repr envn) (JStr s) (authorized_user_of env) rr,
       cs @ RejectDeployment url (rejection_message repr envn) #
         (if truthy rid then [AddWorkflowSummaryError ow n rid (rejection_message repr envn)]
          else []))"
    by (simp add: approval_webhook_def t dflt)
  have f: "filter is_rejection cs = []" using resolve_no_decision[OF assms(8)] by simp
  show ?thesis
    using w f rejection_message_nonempty[of repr envn]
    by (simp add: rejected_response_def rejection_message_def)
qed

lemma empty_label_facts:
  "webhook_fields (empty_label_event_of login) =
     Inr (JStr ''requested'', JStr ''https://a..b/'',
          JObj [(''environment'', JStr ''prod'')], JObj [], JObj [(''id'', JInt 7)])"
  "resolve_initiator tr ''t'' (empty_label_event_of login) = (Inr (JInt 7, JStr login), [])"
  by (simp_all add: empty_label_event_of_def webhook_fields_def resolve_defs)

lemma mallory_validation:
  "resolve_initiator tr ''t'' payload = (Inr (JInt 7, JStr ''mallory''), []) \<Longrightarrow>
   validate_deployment_user tr ''t'' ''APZW3PRD_BCP'' payload =
     (JObj [(''is_valid'', JBool False), (''initiated_by'', JStr ''mallory''),
            (''username_checked'', JStr ''mallory''), (''run_id'', JInt 7)], [])"
  by (simp add: validate_deployment_user_def check_initiator_def extract_username_str and_then_def
      plain_names lower_names)

text \<open>
  Claim C7 at two well-formed events of \<open>mallory\<close>, who is not the authorized identity.
  With the callback URL \<open>https://a..b/\<close> the \<open>ValueError\<close> of the POST leaves
  \<open>reject_deployment\<close> and the handler answers 400 with \<open>Invalid request body\<close>; with a
  jobs request answered by a JSON list the \<open>AttributeError\<close> of
  \<open>add_workflow_summary_error\<close> makes the handler answer 500 after the rejection was
  sent. The claim asks for 200 with \<open>status: "rejected"\<close> in both.
\<close>

theorem rejection_answers_400_or_500:
  "resolve_initiator empty_label_host ''t'' (empty_label_event_of ''mallory'') =
     (Inr (JInt 7, JStr ''mallory''), [])
   \<and> lower (extractUsername ''mallory'') \<noteq> lower (extractUsername (authorized_user_of token_only))
   \<and> approval_webhook zero_digest plain_repr empty_label_host token_only
        (protection_request (empty_label_event_of ''mallory'')) =
     (\<lparr>status_code = 400,
       body = JObj [(''error'', JStr (''Invalid request body: Failed to parse: '' @ quoted ''a..b''
                                        @ '', label empty or too long''))]\<rparr>,
      [RejectDeployment (JStr ''https://a..b/'')
         ''El usuario utilizado para el despliegue no se encuentra autorizado para desplegar en prod''])
   \<and> approval_webhook zero_digest plain_repr empty_list_reply token_only
        (protection_request mallory_event) =
     (\<lparr>status_code = 500,
       body = JObj [(''error'', JStr (''Unexpected error processing webhook: '' @ quoted ''list''
                                        @ '' object has no attribute '' @ quoted ''get''))]\<rparr>,
      [RejectDeployment (JStr ''https://api.github.com/callback'')
         ''El usuario utilizado para el despliegue no se encuentra autorizado para desplegar en prod'',
       AddWorkflowSummaryError JNull JNull (JInt 7)
         ''El usuario utilizado para el despliegue no se encuentra autorizado para desplegar en prod''])"
proof -
  have a: "approval_webhook zero_digest plain_repr empty_label_host token_only
        (protection_request (empty_label_event_of ''mallory'')) =
     (\<lparr>status_code = 400,
       body = JObj [(''error'', JStr (''Invalid request body: Failed to parse: '' @ quoted ''a..b''
                                        @ '', label empty or too long''))]\<rparr>,
      [RejectDeployment (JStr ''https://a..b/'')
         ''El usuario utilizado para el despliegue no se encuentra autorizado para desplegar en prod''])"
    by (simp add: approval_webhook_def approval_webhook_try_def token_only_facts protection_request_def
        empty_label_facts mallory_facts(2) decide_def mallory_validation reject_def Let_def
        rejection_message_def py_str_def reject_deployment_eq empty_label_host_def
        callback_payload_def error_response_def)
  have b: "approval_webhook zero_digest plain_repr empty_list_reply token_only
        (protection_request mallory_event) =
     (\<lparr>status_code = 500,
       body = JObj [(''error'', JStr (''Unexpected error processing webhook: '' @ quoted ''list''
                                        @ '' object has no attribute '' @ quoted ''get''))]\<rparr>,
      [RejectDeployment (JStr ''https://api.github.com/callback'')
         ''El usuario utilizado para el despliegue no se encuentra autorizado para desplegar en prod'',
       AddWorkflowSummaryError JNull JNull (JInt 7)
         ''El usuario utilizado para el despliegue no se encuentra autorizado para desplegar en prod''])"
    by (simp add: approval_webhook_def approval_webhook_try_def token_only_facts protection_request_def
        mallory_facts decide_def mallory_validation reject_def Let_def rejection_message_def
        py_str_def reject_deployment_eq add_workflow_summary_error_eq empty_list_reply_def
        no_attribute_def error_response_def)
  show ?thesis
    using a b by (simp add: empty_label_facts token_only_facts plain_names lower_names)
qed

section \<open>The resolution chain\<close>

lemma run_only_facts:
  "event_shape run_only_event" "network_fallback run_only_event"
  "workflow_id run_only_event = JInt 7" "repository_owner run_only_event = JStr ''octo''"
  "repository_name run_only_event = JStr ''app''"
  "deployment_actor run_only_event = JNull" "triggering_actor run_only_event = JNull"
  "sender_login run_only_event = JNull"
  by (simp_all add: chain_defs run_only_event_def)

lemma reply_with_run:
  "get_workflow_run (reply_with j) token ow n rid = Inr j"
  by (simp add: get_workflow_run_eq reply_with_def)

text \<open>
  Claim C4, as the code has it. On an event of the data model the resolution returns
  the workflow id and the initiator of the first strategy, in this order, that yields a
  non-empty value: (1) \<open>deployment.payload.actor\<close>; (2) \<open>workflow.triggering_actor\<close>, the
  value itself or, for an object, its \<open>login\<close> and failing that its \<open>name\<close>; (3)
  \<open>sender.login\<close>; (4) when the workflow id and the repository owner and name are
  present, the run that \<open>get_workflow_run\<close> returns, read as \<open>triggering_actor.login\<close>
  when the run has a triggering actor and as \<open>actor.login\<close> only when it has none. The
  Gateway is called only when the first three strategies yield nothing, and then once.
\<close>

theorem resolution_chain:
  assumes "event_shape P"
    and "network_fallback P \<longrightarrow>
           get_workflow_run tr token (repository_owner P) (repository_name P) (workflow_id P)
             = Inr run \<and> run_shape run"
  shows "\<exists>i calls. resolve_initiator tr token P = (Inr (workflow_id P, i), calls) \<and>
    (if truthy (deployment_actor P) then i = deployment_actor P \<and> calls = []
     else if truthy (triggering_actor P) then i = triggering_actor P \<and> calls = []
     else if truthy (sender_login P) then i = sender_login P \<and> calls = []
     else if truthy (workflow_id P) \<and> truthy (repository_owner P) \<and> truthy (repository_name P)
     then calls = [GetWorkflowRun (repository_owner P) (repository_name P) (workflow_id P)]
          \<and> (if truthy (run_initiator_amended run) then i = run_initiator_amended run
              else \<not> truthy i)
     else calls = [] \<and> \<not> truthy i)"
proof -
  obtain i3 where lm: "local_methods P = Inr (workflow_id P, i3)"
    and c: "if truthy (deployment_actor P) then i3 = deployment_actor P
            else if truthy (triggering_actor P) then i3 = triggering_actor P
            else if truthy (sender_login P) then i3 = sender_login P
            else \<not> truthy i3"
    using local_methods_shape[OF assms(1)] by blast
  note rn = repo_owner_and_name_shape[OF assms(1)]
  show ?thesis
  proof (cases "truthy i3")
    case True
    then have "resolve_initiator tr token P = (Inr (workflow_id P, i3), [])"
      by (simp add: resolve_initiator_def lm method4_def)
    then show ?thesis using c True by (auto split: if_splits)
  next
    case False
    then have none: "\<not> truthy (deployment_actor P)" "\<not> truthy (triggering_actor P)"
      "\<not> truthy (sender_login P)"
      using c by (auto split: if_splits)
    show ?thesis
    proof (cases "truthy (workflow_id P) \<and> truthy (repository_owner P) \<and> truthy (repository_name P)")
      case no: False
      then have "resolve_initiator tr token P = (Inr (workflow_id P, i3), [])"
        using False by (auto simp: resolve_initiator_def lm method4_def rn)
      then show ?thesis using none no False by auto
    next
      case yes: True
      then have nf: "network_fallback P" using none by (simp add: network_fallback_def)
      then have g: "get_workflow_run tr token (repository_owner P) (repository_name P)
                      (workflow_id P) = Inr run" and rs: "run_shape run"
        using assms(2) by simp_all
      obtain v where v: "from_workflow_run run i3 = Inr v"
        and v1: "truthy (run_initiator_amended run) \<longrightarrow> v = run_initiator_amended run"
        and v2: "\<not> truthy (run_initiator_amended run) \<longrightarrow> \<not> truthy v"
        using from_workflow_run_shape[OF rs, of i3] False by blast
      have "resolve_initiator tr token P =
              (Inr (workflow_id P, v),
               [GetWorkflowRun (repository_owner P) (repository_name P) (workflow_id P)])"
        using False yes
        by (simp add: resolve_initiator_def lm method4_def rn g and_then_def v)
      then show ?thesis using none yes v1 v2 by auto
    qed
  qed
qed

theorem resolution_chain_witness:
  "resolve_initiator offline ''t'' alice_bob_event = (Inr (JNull, JStr ''alice''), [])
   \<and> resolve_initiator offline ''t'' login_and_name_event = (Inr (JNull, JStr ''frank''), [])
   \<and> resolve_initiator offline ''t'' name_only_event = (Inr (JNull, JStr ''Grace G.''), [])
   \<and> resolve_initiator (reply_with run_of_dave) ''t'' run_only_event =
       (Inr (JInt 7, JStr ''dave''), [GetWorkflowRun (JStr ''octo'') (JStr ''app'') (JInt 7)])
   \<and> resolve_initiator (reply_with run_of_erin) ''t'' run_only_event =
       (Inr (JInt 7, JStr ''erin''), [GetWorkflowRun (JStr ''octo'') (JStr ''app'') (JInt 7)])"
proof -
  have a: "event_shape alice_bob_event" "\<not> network_fallback alice_bob_event"
    "deployment_actor alice_bob_event = JStr ''alice''" "workflow_id alice_bob_event = JNull"
    by (simp_all add: chain_defs alice_bob_event_def)
  have b: "event_shape login_and_name_event" "\<not> network_fallback login_and_name_event"
    "deployment_actor login_and_name_event = JNull"
    "triggering_actor login_and_name_event = JStr ''frank''"
    "workflow_id login_and_name_event = JNull"
    by (simp_all add: chain_defs login_and_name_event_def)
  have c: "event_shape name_only_event" "\<not> network_fallback name_only_event"
    "deployment_actor name_only_event = JNull"
    "triggering_actor name_only_event = JStr ''Grace G.''"
    "workflow_id name_only_event = JNull"
    by (simp_all add: chain_defs name_only_event_def)
  have d: "run_shape run_of_dave" "run_initiator_amended run_of_dave = JStr ''dave''"
    "run_shape run_of_erin" "run_initiator_amended run_of_erin = JStr ''erin''"
    by (simp_all add: chain_defs run_of_dave_def run_of_erin_def)
  have 1: "resolve_initiator offline ''t'' alice_bob_event = (Inr (JNull, JStr ''alice''), [])"
    using resolution_chain [of alice_bob_event offline "''t''" JNull] a by auto
  have 2: "resolve_initiator offline ''t'' login_and_name_event = (Inr (JNull, JStr ''frank''), [])"
    using resolution_chain [of login_and_name_event offline "''t''" JNull] b by auto
  have 3: "resolve_initiator offline ''t'' name_only_event = (Inr (JNull, JStr ''Grace G.''), [])"
    using resolution_chain [of name_only_event offline "''t''" JNull] c by auto
  have 4: "resolve_initiator (reply_with run_of_dave) ''t'' run_only_event =
       (Inr (JInt 7, JStr ''dave''), [GetWorkflowRun (JStr ''octo'') (JStr ''app'') (JInt 7)])"
    using resolution_chain [of run_only_event "reply_with run_of_dave" "''t''" run_of_dave]
      run_only_facts d reply_with_run by auto
  have 5: "resolve_initiator (reply_with run_of_erin) ''t'' run_only_event =
       (Inr (JInt 7, JStr ''erin''), [GetWorkflowRun (JStr ''octo'') (JStr ''app'') (JInt 7)])"
    using resolution_chain [of run_only_event "reply_with run_of_erin" "''t''" run_of_erin]
      run_only_facts d reply_with_run by auto
  show ?thesis using 1 2 3 4 5 by simp
qed

text \<open>
  The claim as stated fails: for a run whose triggering actor has no login the code
  does not go on to \<open>actor.login\<close>, although the run has one, and the initiator stays
  unknown.
\<close>

theorem actor_login_not_consulted:
  "event_shape run_only_event
   \<and> get_workflow_run (reply_with run_without_login) ''t'' (JStr ''octo'') (JStr ''app'') (JInt 7)
       = Inr run_without_login
   \<and> run_shape run_without_login
   \<and> run_initiator run_without_login = JStr ''erin''
   \<and> resolve_initiator (reply_with run_without_login) ''t'' run_only_event =
       (Inr (JInt 7, JNull), [GetWorkflowRun (JStr ''octo'') (JStr ''app'') (JInt 7)])
   \<and> fst (validate_deployment_user (reply_with run_without_login) ''t'' ''erin'' run_only_event) =
       JObj [(''is_valid'', JBool False), (''initiated_by'', JStr ''Unknown''),
             (''error'', JStr ''Could not determine deployment initiator'')]"
proof -
  have r: "resolve_initiator (reply_with run_without_login) ''t'' run_only_event =
       (Inr (JInt 7, JNull), [GetWorkflowRun (JStr ''octo'') (JStr ''app'') (JInt 7)])"
    by (simp add: resolve_defs run_only_event_def reply_with_run run_without_login_def)
  show ?thesis
    using r
    by (simp add: run_only_facts reply_with_run validate_deployment_user_def check_initiator_def
        unknown_initiator_def)
       (simp add: chain_defs run_without_login_def)
qed

section \<open>The status codes\<close>

text \<open>What holds stage by stage: 400 with the parser's message for a body that does not
  parse, 401 when the signature check returns false, 500 when the token is missing,
  200 for an event that does not pass the filter; none of them calls the Gateway.\<close>

lemma status_by_stage:
  "get_json req = Inl m \<Longrightarrow>
     approval_webhook h repr tr env req =
       (\<lparr>status_code = 400, body = JObj [(''error'', JStr (''Invalid request body: '' @ m))]\<rparr>, [])"
  "get_json req = Inr payload \<Longrightarrow> signature_ok h env req = Inr False \<Longrightarrow>
     approval_webhook h repr tr env req =
       (\<lparr>status_code = 401, body = JObj [(''error'', JStr ''Invalid signature'')]\<rparr>, [])"
  "get_json req = Inr payload \<Longrightarrow> signature_ok h env req = Inr True \<Longrightarrow>
   env ''GITHUB_TOKEN'' = None \<or> env ''GITHUB_TOKEN'' = Some [] \<Longrightarrow>
     approval_webhook h repr tr env req =
       (\<lparr>status_code = 500,
         body = JObj [(''error'', JStr ''GitHub configuration is missing (GITHUB_TOKEN)'')]\<rparr>, [])"
  "get_json req = Inr payload \<Longrightarrow> signature_ok h env req = Inr True \<Longrightarrow>
   env ''GITHUB_TOKEN'' = Some token \<Longrightarrow> token \<noteq> [] \<Longrightarrow>
   webhook_fields payload = Inr (action, url, d, r, w) \<Longrightarrow>
   req_headers req ''X-GitHub-Event'' \<noteq> Some ''deployment_protection_rule''
     \<or> action \<noteq> JStr ''requested'' \<Longrightarrow>
     approval_webhook h repr tr env req =
       (\<lparr>status_code = 200,
         body = JObj [(''message'', JStr ''Not a deployment protection rule request, skipping'')]\<rparr>,
        [])"
  by (auto simp: approval_webhook_def approval_webhook_try_def error_response_def
      skip_response_def split: option.splits)

lemma signature_ok_false_iff:
  "signature_ok h env req = Inr False \<longleftrightarrow>
     (\<exists>secret. env ''GITHUB_WEBHOOK_SECRET'' = Some secret \<and> secret \<noteq> []
        \<and> verify_signature h (get_body req) (req_headers req ''X-Hub-Signature-256'') secret
            = Inr False)"
  by (auto simp: signature_ok_def split: option.splits)

lemma placeholder_validation:
  "resolve_initiator tr ''t'' payload = (Inr (JInt 7, JStr ''Apzw3prd_Bcp''), []) \<Longrightarrow>
   validate_deployment_user tr ''t'' ''APZW3PRD_BCP'' payload =
     (JObj [(''is_valid'', JBool True), (''initiated_by'', JStr ''Apzw3prd_Bcp''),
            (''username_checked'', JStr ''Apzw3prd_Bcp''), (''run_id'', JInt 7)], [])"
  by (simp add: validate_deployment_user_def check_initiator_def extract_username_str and_then_def
      plain_names lower_names)

text \<open>
  Claim C5 at two requests whose status is not the documented one. With a secret
  configured and a signature header that is not ASCII the signature is invalid, yet
  the answer is 500 and not 401, because the comparison raises. For an authorized
  event with the callback URL \<open>https://a..b/\<close> the body parsed, yet the \<open>ValueError\<close> of
  the POST is caught by \<open>except ValueError\<close> and the answer is 400 with \<open>Invalid request
  body\<close> and not 500.
\<close>

theorem undocumented_status_codes:
  "approval_webhook zero_digest plain_repr offline secret_env non_ascii_signature_request =
     (\<lparr>status_code = 500,
       body = JObj [(''error'', JStr ''Unexpected error processing webhook: comparing strings with non-ASCII characters is not supported'')]\<rparr>,
      [])
   \<and> get_json (protection_request (empty_label_event_of ''Apzw3prd_Bcp'')) =
       Inr (empty_label_event_of ''Apzw3prd_Bcp'')
   \<and> approval_webhook zero_digest plain_repr empty_label_host token_only
        (protection_request (empty_label_event_of ''Apzw3prd_Bcp'')) =
     (\<lparr>status_code = 400,
       body = JObj [(''error'', JStr (''Invalid request body: Failed to parse: '' @ quoted ''a..b''
                                        @ '', label empty or too long''))]\<rparr>,
      [ApproveDeployment (JStr ''https://a..b/'')
         ''Usuario autorizado: Apzw3prd_Bcp. Despliegue permitido en prod''])"
proof -
  have a: "approval_webhook zero_digest plain_repr offline secret_env non_ascii_signature_request =
     (\<lparr>status_code = 500,
       body = JObj [(''error'', JStr ''Unexpected error processing webhook: comparing strings with non-ASCII characters is not supported'')]\<rparr>,
      [])"
    by (simp add: approval_webhook_def approval_webhook_try_def signature_ok_def secret_env_def
        non_ascii_signature_request_def verify_signature_def compare_digest_def is_ascii_def
        error_response_def)
  have b: "approval_webhook zero_digest plain_repr empty_label_host token_only
        (protection_request (empty_label_event_of ''Apzw3prd_Bcp'')) =
     (\<lparr>status_code = 400,
       body = JObj [(''error'', JStr (''Invalid request body: Failed to parse: '' @ quoted ''a..b''
                                        @ '', label empty or too long''))]\<rparr>,
      [ApproveDeployment (JStr ''https://a..b/'')
         ''Usuario autorizado: Apzw3prd_Bcp. Despliegue permitido en prod''])"
    by (simp add: approval_webhook_def approval_webhook_try_def token_only_facts protection_request_def
        empty_label_facts mallory_facts(2) decide_def placeholder_validation approve_def Let_def
        approval_message_def py_str_def approve_deployment_eq empty_label_host_def
        callback_payload_def error_response_def)
  show ?thesis using a b by (simp add: protection_request_def)
qed

section \<open>The default authorized identity\<close>

lemma placeholder_facts:
  "webhook_fields placeholder_event =
     Inr (JStr ''requested'', JStr ''https://api.github.com/callback'',
          JObj [(''environment'', JStr ''prod'')], JObj [], JObj [(''id'', JInt 7)])"
  "resolve_initiator tr ''t'' placeholder_event = (Inr (JInt 7, JStr ''Apzw3prd_Bcp''), [])"
  by (simp_all add: placeholder_event_def event_of_def webhook_fields_def resolve_defs)

text \<open>
  Claim C10. When \<open>AUTHORIZED_USER\<close> is not set, the authorized identity is the literal
  \<open>APZW3PRD_BCP\<close>. For an event that reaches the decision with a resolved initiator, the
  one decision call is \<open>approve_deployment\<close> when the initiator is a string that
  normalises, up to case, to \<open>apzw3prd_bcp\<close> (and when that call returns, the response is
  200 with \<open>status: "approved"\<close>); for every other resolved initiator the one decision
  call is \<open>reject_deployment\<close>.
\<close>

theorem placeholder_authorized_user:
  assumes "env ''AUTHORIZED_USER'' = None"
    and "get_json req = Inr payload" and "signature_ok h env req = Inr True"
    and "env ''GITHUB_TOKEN'' = Some token" and "token \<noteq> []"
    and "req_headers req ''X-GitHub-Event'' = Some ''deployment_protection_rule''"
    and "webhook_fields payload = Inr (JStr ''requested'', url, d, r, w)"
    and "deployment_fields d r w = Inr (ow, n, envn, rid)"
    and "resolve_initiator tr token payload = (Inr (rid', i), cs)" and "truthy i"
  shows "authorized_user_of env = ''APZW3PRD_BCP''
     \<and> ((\<exists>s. i = JStr s \<and> lower (extractUsername s) = ''apzw3prd_bcp'') \<longrightarrow>
          filter is_decision (snd (approval_webhook h repr tr env req)) =
                [ApproveDeployment url (approval_message repr i envn)]
          \<and> (\<forall>ar. approve_deployment tr token url (approval_message repr i envn) = Inr ar \<longrightarrow>
                 fst (approval_webhook h repr tr env req) =
                 \<lparr>status_code = 200,
                  body = JObj [(''status'', JStr ''approved''),
                               (''message'', JStr (approval_message repr i envn)),
                               (''initiated_by'', i), (''environment'', envn),
                               (''approval_result'', ar)]\<rparr>))
     \<and> (\<not> (\<exists>s. i = JStr s \<and> lower (extractUsername s) = ''apzw3prd_bcp'') \<longrightarrow>
          filter is_decision (snd (approval_webhook h repr tr env req)) =
                [RejectDeployment url (rejection_message repr envn)])"
proof -
  have au: "authorized_user_of env = ''APZW3PRD_BCP''"
    using assms(1) by (simp add: authorized_user_of_def)
  have m: "authorised ''APZW3PRD_BCP'' i \<longleftrightarrow>
             (\<exists>s. i = JStr s \<and> lower (extractUsername s) = ''apzw3prd_bcp'')"
    by (cases i) (simp_all add: authorised_def plain_names lower_names)
  obtain v rest where v:
    "validate_deployment_user tr token ''APZW3PRD_BCP'' payload =
       (JObj ((''is_valid'', JBool (authorised ''APZW3PRD_BCP'' i)) # (''initiated_by'', v) # rest), cs)"
    "\<forall>s. i = JStr s \<longrightarrow> v = i"
    using validate_resolved[OF assms(9,10), of "''APZW3PRD_BCP''"] by auto
  have t: "approval_webhook_try h repr tr env req =
             decide repr tr token ''APZW3PRD_BCP'' payload url d r w"
    using try_passes[OF assms(2,3,4,5,7,6)] au by simp
  note dec = decide_eq[OF assms(8) v(1), of repr url]
  have f: "filter is_decision cs = []" using resolve_no_decision[OF assms(9)] by simp
  have yes: "filter is_decision (snd (approval_webhook h repr tr env req)) =
                [ApproveDeployment url (approval_message repr i envn)]
          \<and> (\<forall>ar. approve_deployment tr token url (approval_message repr i envn) = Inr ar \<longrightarrow>
                 fst (approval_webhook h repr tr env req) =
                 \<lparr>status_code = 200,
                  body = JObj [(''status'', JStr ''approved''),
                               (''message'', JStr (approval_message repr i envn)),
                               (''initiated_by'', i), (''environment'', envn),
                               (''approval_result'', ar)]\<rparr>)"
    if "authorised ''APZW3PRD_BCP'' i"
  proof -
    have vi: "v = i" using that v(2) m by auto
    have c: "filter is_decision (snd (approval_webhook h repr tr env req)) =
                [ApproveDeployment url (approval_message repr i envn)]"
      using that dec f vi by (simp add: webhook_calls t)
    have r: "fst (approval_webhook h repr tr env req) =
                 \<lparr>status_code = 200,
                  body = JObj [(''status'', JStr ''approved''),
                               (''message'', JStr (approval_message repr i envn)),
                               (''initiated_by'', i), (''environment'', envn),
                               (''approval_result'', ar)]\<rparr>"
      if "approve_deployment tr token url (approval_message repr i envn) = Inr ar" for ar
      using that \<open>authorised ''APZW3PRD_BCP'' i\<close> dec vi
      by (simp add: approval_webhook_def t approved_response_def)
    show ?thesis using c r by blast
  qed
  have no: "filter is_decision (snd (approval_webhook h repr tr env req)) =
                [RejectDeployment url (rejection_message repr envn)]"
    if "\<not> authorised ''APZW3PRD_BCP'' i"
    using that dec f by (auto simp: webhook_calls t split: sum.splits)
  show ?thesis using au yes no unfolding m by blast
qed

theorem placeholder_authorized_user_witness:
  "authorized_user_of token_only = ''APZW3PRD_BCP''
   \<and> fst (approval_webhook zero_digest plain_repr offline token_only
            (protection_request placeholder_event)) =
       \<lparr>status_code = 200,
        body = JObj [(''status'', JStr ''approved''),
                     (''message'', JStr ''Usuario autorizado: Apzw3prd_Bcp. Despliegue permitido en prod''),
                     (''initiated_by'', JStr ''Apzw3prd_Bcp''), (''environment'', JStr ''prod''),
                     (''approval_result'',
                        JObj [(''error'', JStr ''Error approving deployment: connection refused'')])]\<rparr>
   \<and> filter is_decision (snd (approval_webhook zero_digest plain_repr offline token_only
            (protection_request placeholder_event))) =
       [ApproveDeployment (JStr ''https://api.github.com/callback'')
          ''Usuario autorizado: Apzw3prd_Bcp. Despliegue permitido en prod'']
   \<and> filter is_decision (snd (approval_webhook zero_digest plain_repr offline token_only
            (protection_request mallory_event))) =
       [RejectDeployment (JStr ''https://api.github.com/callback'')
          ''El usuario utilizado para el despliegue no se encuentra autorizado para desplegar en prod'']"
proof -
  have u: "token_only ''AUTHORIZED_USER'' = None" by (simp add: token_only_def)
  have a: "get_json (protection_request placeholder_event) = Inr placeholder_event"
    "get_json (protection_request mallory_event) = Inr mallory_event"
    and b: "req_headers (protection_request placeholder_event) ''X-GitHub-Event'' =
              Some ''deployment_protection_rule''"
      "req_headers (protection_request mallory_event) ''X-GitHub-Event'' =
              Some ''deployment_protection_rule''"
    by (simp_all add: protection_request_def)
  have tk: "''t'' \<noteq> []" by simp
  have msg: "approval_message plain_repr (JStr ''Apzw3prd_Bcp'') (JStr ''prod'') =
       ''Usuario autorizado: Apzw3prd_Bcp. Despliegue permitido en prod''"
    "rejection_message plain_repr (JStr ''prod'') =
       ''El usuario utilizado para el despliegue no se encuentra autorizado para desplegar en prod''"
    by (simp_all add: approval_message_def rejection_message_def py_str_def)
  have ap: "approve_deployment offline ''t'' (JStr ''https://api.github.com/callback'')
               ''Usuario autorizado: Apzw3prd_Bcp. Despliegue permitido en prod'' =
            Inr (JObj [(''error'', JStr ''Error approving deployment: connection refused'')])"
    by (simp add: approve_deployment_eq offline_def)
  have p: "\<exists>s. JStr ''Apzw3prd_Bcp'' = JStr s \<and> lower (extractUsername s) = ''apzw3prd_bcp''"
    by (simp add: plain_names lower_names)
  have q: "\<not> (\<exists>s. JStr ''mallory'' = JStr s \<and> lower (extractUsername s) = ''apzw3prd_bcp'')"
    by (simp add: plain_names lower_names)
  note i1 = placeholder_authorized_user [where h = zero_digest and repr = plain_repr and tr = offline,
      OF u a(1) token_only_facts(1) token_only_facts(2) tk b(1)
      placeholder_facts(1) mallory_facts(2) placeholder_facts(2)]
  note i2 = placeholder_authorized_user [where h = zero_digest and repr = plain_repr and tr = offline,
      OF u a(2) token_only_facts(1) token_only_facts(2) tk b(2)
      mallory_facts(1) mallory_facts(2) mallory_facts(3)]
  from i1 p ap have r0: "fst (approval_webhook zero_digest plain_repr offline token_only
            (protection_request placeholder_event)) =
       \<lparr>status_code = 200,
        body = JObj [(''status'', JStr ''approved''),
                     (''message'', JStr ''Usuario autorizado: Apzw3prd_Bcp. Despliegue permitido en prod''),
                     (''initiated_by'', JStr ''Apzw3prd_Bcp''), (''environment'', JStr ''prod''),
                     (''approval_result'',
                        JObj [(''error'', JStr ''Error approving deployment: connection refused'')])]\<rparr>"
    unfolding msg by simp
  from i1 p have r1: "filter is_decision (snd (approval_webhook zero_digest plain_repr offline token_only
            (protection_request placeholder_event))) =
       [ApproveDeployment (JStr ''https://api.github.com/callback'')
          ''Usuario autorizado: Apzw3prd_Bcp. Despliegue permitido en prod'']"
    unfolding msg by simp
  from i2 q have r2: "filter is_decision (snd (approval_webhook zero_digest plain_repr offline token_only
            (protection_request mallory_event))) =
       [RejectDeployment (JStr ''https://api.github.com/callback'')
          ''El usuario utilizado para el despliegue no se encuentra autorizado para desplegar en prod'']"
    unfolding msg by simp
  show ?thesis using r0 r1 r2 by (simp add: token_only_facts)
qed

end
